theory Spec2Isabelle
  imports Main "HOL-Library.Word"
begin

unbundle bit_operations_syntax

section \<open>Bytes, negotiate flags and errors\<close>

text \<open>
  A Go \<^verbatim>\<open>[]byte\<close> is a list of 8-bit words; a nil slice and an empty slice are both
  \<open>[]\<close> (\<^verbatim>\<open>bytes.Equal\<close>, \<^verbatim>\<open>len\<close> and \<^verbatim>\<open>append\<close> do not tell them apart).
  A Go \<^verbatim>\<open>string\<close> is a \<open>string\<close>. \<^verbatim>\<open>uint32\<close> and \<^verbatim>\<open>int64\<close> are words,
  so their arithmetic wraps as Go's does.
\<close>

type_synonym byte = "8 word"
type_synonym bytes = "byte list"
type_synonym uint32 = "32 word"
type_synonym int64 = "64 word"

text \<open>
  Modelled from the spec: the helpers \<^verbatim>\<open>concat\<close> and \<^verbatim>\<open>zeroBytes\<close> live outside
  \<^verbatim>\<open>ntlmv1.go\<close> and \<^verbatim>\<open>ntlmv2.go\<close>. The spec writes \<^verbatim>\<open>a || b\<close> for what
  \<^verbatim>\<open>concat(a, b)\<close> builds and \<^verbatim>\<open>zeros(n)\<close> for \<^verbatim>\<open>zeroBytes(n)\<close>.
\<close>

definition concat_bytes :: "bytes list \<Rightarrow> bytes" where
  "concat_bytes slices = concat slices"

definition zeroBytes :: "nat \<Rightarrow> bytes" where
  "zeroBytes n = replicate n 0"

text \<open>
  Modelled from the spec: \<^verbatim>\<open>zeroPaddedBytes(b, offset, size)\<close> is declared outside the two
  files; the spec describes its use in LMOWFv1 as "zero-pad/truncate to 14 bytes".
\<close>

definition zeroPaddedBytes :: "bytes \<Rightarrow> nat \<Rightarrow> nat \<Rightarrow> bytes" where
  "zeroPaddedBytes b offset sz = take sz (drop offset b @ replicate sz 0)"

text \<open>
  Modelled from the spec: the flag constants are declared outside the two files. The spec
  names the bits after MS-NLMP, whose section 2.2.2.5 gives these masks; \<^verbatim>\<open>f.IsSet(flags)\<close>
  tests the bit. No theorem below depends on the value of a mask.
\<close>

definition NTLMSSP_NEGOTIATE_DATAGRAM :: uint32 where
  "NTLMSSP_NEGOTIATE_DATAGRAM = 0x00000040"

definition NTLMSSP_NEGOTIATE_EXTENDED_SESSIONSECURITY :: uint32 where
  "NTLMSSP_NEGOTIATE_EXTENDED_SESSIONSECURITY = 0x00080000"

definition NTLMSSP_NEGOTIATE_KEY_EXCH :: uint32 where
  "NTLMSSP_NEGOTIATE_KEY_EXCH = 0x40000000"

definition IsSet :: "uint32 \<Rightarrow> uint32 \<Rightarrow> bool" where
  "IsSet f flags = (flags AND f \<noteq> 0)"

text \<open>
  The values of Go's \<^verbatim>\<open>error\<close> that the two files can hand to a caller:
  \<^verbatim>\<open>errors.New("Could not authenticate")\<close>, and whatever error a primitive of the crypto
  layer returned, passed on unchanged. A nil error is \<open>None\<close>. \<open>RuntimePanic\<close> is not an
  error return: it stands for a Go run-time panic (a nil pointer dereferenced, a slice
  bound out of range), which unwinds the call.
\<close>

datatype error = CouldNotAuthenticate | CryptoFailure string | RuntimePanic

type_synonym err = "error option"

definition lift_err :: "string option \<Rightarrow> err" where
  "lift_err e = map_option CryptoFailure e"

section \<open>The primitives the two files call\<close>

text \<open>
  The crypto layer (MD4, MD5, HMAC-MD5, DES, RC4, the key derivations SIGNKEY, SEALKEY and
  KXKEY, the signature function \<^verbatim>\<open>mac\<close> and the comparison \<^verbatim>\<open>MacsEqual\<close>), the
  UTF-16LE encoder and Go's \<^verbatim>\<open>strings.ToUpper\<close> are not part of \<^verbatim>\<open>ntlmv1.go\<close> and
  \<^verbatim>\<open>ntlmv2.go\<close>. The session code is modelled over an arbitrary implementation of
  them, a record of functions with the Go signatures. A fallible primitive returns its
  value together with its error (\<open>None\<close> for nil), as Go's \<^verbatim>\<open>(value, err)\<close> pair does.
  \<open>'h\<close> is the state of an RC4 cipher; a \<^verbatim>\<open>*rc4.Cipher\<close> is an \<open>'h option\<close>, \<open>None\<close> for
  the nil pointer. \<^verbatim>\<open>mac\<close> returns the bytes of the signature (\<^verbatim>\<open>sig.Bytes()\<close>) and the
  state in which it leaves the cipher it was handed, since it encrypts through the pointer.
\<close>

record 'h prims =
  md4 :: "bytes \<Rightarrow> bytes"
  md5 :: "bytes \<Rightarrow> bytes"
  hmacMd5 :: "bytes \<Rightarrow> bytes \<Rightarrow> bytes"
  des :: "bytes \<Rightarrow> bytes \<Rightarrow> bytes \<times> string option"
  desL :: "bytes \<Rightarrow> bytes \<Rightarrow> bytes \<times> string option"
  rc4K :: "bytes \<Rightarrow> bytes \<Rightarrow> bytes \<times> string option"
  rc4Init :: "bytes \<Rightarrow> 'h option \<times> string option"
  reinitSealingKey :: "bytes \<Rightarrow> int \<Rightarrow> 'h option \<times> string option"
  mac :: "uint32 \<Rightarrow> 'h option \<Rightarrow> bytes \<Rightarrow> uint32 \<Rightarrow> bytes \<Rightarrow> bytes \<times> 'h option"
  signKey :: "uint32 \<Rightarrow> bytes \<Rightarrow> string \<Rightarrow> bytes"
  sealKey :: "uint32 \<Rightarrow> bytes \<Rightarrow> string \<Rightarrow> bytes"
  kxKey :: "uint32 \<Rightarrow> bytes \<Rightarrow> bytes \<Rightarrow> bytes \<Rightarrow> bytes \<Rightarrow> bytes \<times> string option"
  utf16FromString :: "string \<Rightarrow> bytes"
  ToUpper :: "string \<Rightarrow> string"
  MacsEqual :: "bytes \<Rightarrow> bytes \<Rightarrow> bool"

section \<open>Session data and messages\<close>

text \<open>
  \<^verbatim>\<open>SessionData\<close>, with the fields that the methods below read and write. The three
  cached messages are pointers: an address, \<open>None\<close> for nil. The RC4 handles are pointers
  to ciphers that the session owns alone, so the cipher's state is kept in the field.
\<close>

type_synonym addr = nat

record 'h SessionData =
  user :: string
  password :: string
  userDomain :: string
  workstation :: string
  NegotiateFlags :: uint32
  serverChallenge :: bytes
  clientChallenge :: bytes
  responseKeyNT :: bytes
  responseKeyLM :: bytes
  sessionBaseKey :: bytes
  keyExchangeKey :: bytes
  exportedSessionKey :: bytes
  encryptedRandomSessionKey :: bytes
  ntChallengeResponse :: bytes
  lmChallengeResponse :: bytes
  ClientSigningKey :: bytes
  ServerSigningKey :: bytes
  ClientSealingKey :: bytes
  ServerSealingKey :: bytes
  clientHandle :: "'h option"
  serverHandle :: "'h option"
  negotiateMessage :: "addr option"
  challengeMessage :: "addr option"
  authenticateMessage :: "addr option"
  mic :: bytes

text \<open>The zero value of the struct, as \<^verbatim>\<open>new(V2ServerSession)\<close> gives it.\<close>

definition zeroSession :: "'h SessionData" where
  "zeroSession = \<lparr> user = [], password = [], userDomain = [], workstation = [],
     NegotiateFlags = 0, serverChallenge = [], clientChallenge = [],
     responseKeyNT = [], responseKeyLM = [], sessionBaseKey = [], keyExchangeKey = [],
     exportedSessionKey = [], encryptedRandomSessionKey = [],
     ntChallengeResponse = [], lmChallengeResponse = [],
     ClientSigningKey = [], ServerSigningKey = [], ClientSealingKey = [],
     ServerSealingKey = [], clientHandle = None, serverHandle = None,
     negotiateMessage = None, challengeMessage = None, authenticateMessage = None,
     mic = [] \<rparr>"

record VersionStruct =
  ProductMajorVersion :: "8 word"
  ProductMinorVersion :: "8 word"
  ProductBuild :: "16 word"
  NTLMRevisionCurrent :: "8 word"

text \<open>
  The parsed AUTHENTICATE message, with what \<^verbatim>\<open>ProcessAuthenticateMessage\<close> reads from it:
  \<open>am_ClientChallenge\<close> is the value of \<^verbatim>\<open>am.ClientChallenge()\<close>, \<open>am_UserName\<close> of
  \<^verbatim>\<open>am.UserName.String()\<close> (likewise the domain and the workstation), the three payloads are
  the \<^verbatim>\<open>.Payload\<close> of their fields, and \<open>am_NtlmV2Response\<close> is the pointer
  \<^verbatim>\<open>am.NtlmV2Response\<close>, \<open>None\<close> when the parser left it nil, with the
  \<^verbatim>\<open>TimeStamp\<close> and \<^verbatim>\<open>AvPairs.Bytes()\<close> of its \<^verbatim>\<open>NtlmV2ClientChallenge\<close>.
\<close>

record NtlmV2Response =
  TimeStamp :: bytes
  AvPairsBytes :: bytes

record AuthenticateMessage =
  am_NegotiateFlags :: uint32
  am_ClientChallenge :: bytes
  am_EncryptedRandomSessionKey :: bytes
  am_UserName :: string
  am_DomainName :: string
  am_Workstation :: string
  am_NtlmV2Response :: "NtlmV2Response option"
  am_NtChallengeResponseFields :: bytes
  am_LmChallengeResponse :: bytes
  am_Mic :: bytes
  am_Version :: "VersionStruct option"

text \<open>The heap of AUTHENTICATE messages: the server is handed a pointer and writes through it.\<close>

type_synonym heap = "addr \<Rightarrow> AuthenticateMessage option"

definition defaultVersion :: VersionStruct where
  "defaultVersion = \<lparr> ProductMajorVersion = 6, ProductMinorVersion = 1,
     ProductBuild = 7601, NTLMRevisionCurrent = 15 \<rparr>"

section \<open>NTLMv2: shared session methods (ntlmv2.go)\<close>

definition ntowfv2 :: "'h prims \<Rightarrow> string \<Rightarrow> string \<Rightarrow> string \<Rightarrow> bytes" where
  "ntowfv2 P usr passwd userDom =
     (let concat = utf16FromString P (ToUpper P usr @ userDom)
      in hmacMd5 P (md4 P (utf16FromString P passwd)) concat)"

definition lmowfv2 :: "'h prims \<Rightarrow> string \<Rightarrow> string \<Rightarrow> string \<Rightarrow> bytes" where
  "lmowfv2 P usr passwd userDom = ntowfv2 P usr passwd userDom"

definition V2_fetchResponseKeys :: "'h prims \<Rightarrow> 'h SessionData \<Rightarrow> err \<times> 'h SessionData" where
  "V2_fetchResponseKeys P n =
     (let n = n\<lparr>responseKeyLM := lmowfv2 P (user n) (password n) (userDomain n)\<rparr>;
          n = n\<lparr>responseKeyNT := ntowfv2 P (user n) (password n) (userDomain n)\<rparr>
      in (None, n))"

definition V2_computeExpectedResponses ::
  "'h prims \<Rightarrow> bytes \<Rightarrow> bytes \<Rightarrow> 'h SessionData \<Rightarrow> err \<times> 'h SessionData" where
  "V2_computeExpectedResponses P timestamp avPairBytes n =
     (let temp = concat_bytes [[0x01], [0x01], zeroBytes 6, timestamp, clientChallenge n,
                               zeroBytes 4, avPairBytes, zeroBytes 4];
          ntProofStr = hmacMd5 P (responseKeyNT n) (concat_bytes [serverChallenge n, temp]);
          n = n\<lparr>ntChallengeResponse := concat_bytes [ntProofStr, temp]\<rparr>;
          n = n\<lparr>lmChallengeResponse :=
                 concat_bytes [hmacMd5 P (responseKeyLM n)
                                 (concat_bytes [serverChallenge n, clientChallenge n]),
                               clientChallenge n]\<rparr>;
          n = n\<lparr>sessionBaseKey := hmacMd5 P (responseKeyNT n) ntProofStr\<rparr>
      in (None, n))"

definition V2_computeKeyExchangeKey :: "'h SessionData \<Rightarrow> err \<times> 'h SessionData" where
  "V2_computeKeyExchangeKey n = (None, n\<lparr>keyExchangeKey := sessionBaseKey n\<rparr>)"

definition V2_calculateKeys :: "'h prims \<Rightarrow> 8 word \<Rightarrow> 'h SessionData \<Rightarrow> err \<times> 'h SessionData" where
  "V2_calculateKeys P ntlmRevisionCurrent n =
     (let n = n\<lparr>ClientSigningKey := signKey P (NegotiateFlags n) (exportedSessionKey n) ''Client''\<rparr>;
          n = n\<lparr>ServerSigningKey := signKey P (NegotiateFlags n) (exportedSessionKey n) ''Server''\<rparr>;
          n = n\<lparr>ClientSealingKey := sealKey P (NegotiateFlags n) (exportedSessionKey n) ''Client''\<rparr>;
          n = n\<lparr>ServerSealingKey := sealKey P (NegotiateFlags n) (exportedSessionKey n) ''Server''\<rparr>
      in (None, n))"

text \<open>
  \<^verbatim>\<open>Seal\<close> and \<^verbatim>\<open>Sign\<close> return \<^verbatim>\<open>nil, nil\<close>. Here the returned slice is a
  \<open>bytes option\<close>, \<open>None\<close> for the nil slice, so that "no slice" and "an empty slice"
  stay apart. The session is not touched.
\<close>

definition V2_Seal :: "'h SessionData \<Rightarrow> bytes \<Rightarrow> bytes option \<times> err" where
  "V2_Seal n message = (None, None)"

definition V2_Sign :: "'h SessionData \<Rightarrow> bytes \<Rightarrow> bytes option \<times> err" where
  "V2_Sign n message = (None, None)"


text \<open>
  The MAC of a message. \<^verbatim>\<open>sequenceNumber\<close> is a Go \<^verbatim>\<open>int\<close>; \<^verbatim>\<open>uint32(sequenceNumber)\<close>
  keeps its low 32 bits. In datagram mode the local variable \<^verbatim>\<open>handle\<close> is rebound to a
  fresh cipher (the error of the initialisation is dropped, as \<^verbatim>\<open>handle, _ =\<close> does), so
  the cipher that was passed in keeps its state; otherwise \<^verbatim>\<open>mac\<close> runs on the cipher
  that was passed in. The second component is the state of the passed-in cipher after the
  call.
\<close>

definition NtlmVCommonMac ::
  "'h prims \<Rightarrow> bytes \<Rightarrow> int \<Rightarrow> bytes \<Rightarrow> bytes \<Rightarrow> uint32 \<Rightarrow> bytes" where
  "NtlmVCommonMac P message sequenceNumber sealingKey signingKey flags =
     (let handle = None;
          handle =
            (if IsSet NTLMSSP_NEGOTIATE_DATAGRAM flags
                \<and> IsSet NTLMSSP_NEGOTIATE_EXTENDED_SESSIONSECURITY flags
             then fst (reinitSealingKey P sealingKey sequenceNumber)
             else if IsSet NTLMSSP_NEGOTIATE_DATAGRAM flags
             then fst (rc4Init P sealingKey)
             else handle)
      in fst (mac P flags handle signingKey (word_of_int sequenceNumber) message))"

definition NtlmV2Mac ::
  "'h prims \<Rightarrow> bytes \<Rightarrow> int \<Rightarrow> 'h option \<Rightarrow> bytes \<Rightarrow> bytes \<Rightarrow> uint32 \<Rightarrow> bytes \<times> 'h option" where
  "NtlmV2Mac P message sequenceNumber handle sealingKey signingKey flags =
     (if IsSet NTLMSSP_NEGOTIATE_DATAGRAM flags
         \<and> IsSet NTLMSSP_NEGOTIATE_EXTENDED_SESSIONSECURITY flags
      then (fst (mac P flags (fst (reinitSealingKey P sealingKey sequenceNumber)) signingKey
                   (word_of_int sequenceNumber) message), handle)
      else if IsSet NTLMSSP_NEGOTIATE_DATAGRAM flags
      then (fst (mac P flags (fst (rc4Init P sealingKey)) signingKey
                   (word_of_int sequenceNumber) message), handle)
      else mac P flags handle signingKey (word_of_int sequenceNumber) message)"

text \<open>
  \<^verbatim>\<open>Mac\<close> and \<^verbatim>\<open>VerifyMac\<close> of the two roles return their Go result (the value and a nil
  error) and the session, whose cipher the call may have advanced.
\<close>

definition V2Server_Mac ::
  "'h prims \<Rightarrow> 'h SessionData \<Rightarrow> bytes \<Rightarrow> int \<Rightarrow> (bytes \<times> err) \<times> 'h SessionData" where
  "V2Server_Mac P n message sequenceNumber =
     (let (m, h) = NtlmV2Mac P message sequenceNumber (serverHandle n) (ServerSealingKey n)
                     (ServerSigningKey n) (NegotiateFlags n)
      in ((m, None), n\<lparr>serverHandle := h\<rparr>))"

definition V2Server_VerifyMac ::
  "'h prims \<Rightarrow> 'h SessionData \<Rightarrow> bytes \<Rightarrow> bytes \<Rightarrow> int \<Rightarrow> (bool \<times> err) \<times> 'h SessionData" where
  "V2Server_VerifyMac P n message expectedMac sequenceNumber =
     (let (m, h) = NtlmV2Mac P message sequenceNumber (clientHandle n) (ClientSealingKey n)
                     (ClientSigningKey n) (NegotiateFlags n)
      in ((MacsEqual P m expectedMac, None), n\<lparr>clientHandle := h\<rparr>))"

definition V2Client_Mac ::
  "'h prims \<Rightarrow> 'h SessionData \<Rightarrow> bytes \<Rightarrow> int \<Rightarrow> (bytes \<times> err) \<times> 'h SessionData" where
  "V2Client_Mac P n message sequenceNumber =
     (let (m, h) = NtlmV2Mac P message sequenceNumber (clientHandle n) (ClientSealingKey n)
                     (ClientSigningKey n) (NegotiateFlags n)
      in ((m, None), n\<lparr>clientHandle := h\<rparr>))"

definition V2Client_VerifyMac ::
  "'h prims \<Rightarrow> 'h SessionData \<Rightarrow> bytes \<Rightarrow> bytes \<Rightarrow> int \<Rightarrow> (bool \<times> err) \<times> 'h SessionData" where
  "V2Client_VerifyMac P n message expectedMac sequenceNumber =
     (let (m, h) = NtlmV2Mac P message sequenceNumber (serverHandle n) (ServerSealingKey n)
                     (ServerSigningKey n) (NegotiateFlags n)
      in ((MacsEqual P m expectedMac, None), n\<lparr>serverHandle := h\<rparr>))"

section \<open>NTLMv2: server session (ntlmv2.go)\<close>

definition V2Server_computeExportedSessionKey ::
  "'h prims \<Rightarrow> 'h SessionData \<Rightarrow> err \<times> 'h SessionData" where
  "V2Server_computeExportedSessionKey P n =
     (if IsSet NTLMSSP_NEGOTIATE_KEY_EXCH (NegotiateFlags n) then
        (let (k, e) = rc4K P (keyExchangeKey n) (encryptedRandomSessionKey n);
             n = n\<lparr>exportedSessionKey := k\<rparr>
         in if e \<noteq> None then (lift_err e, n) else (None, n))
      else (None, n\<lparr>exportedSessionKey := keyExchangeKey n\<rparr>))"

text \<open>
  \<^verbatim>\<open>ProcessAuthenticateMessage\<close> is handed the pointer \<open>am\<close> into the heap \<open>h\<close> and returns
  its error, the session and the heap. A nil \<open>am\<close>, or a nil \<^verbatim>\<open>am.NtlmV2Response\<close>, is
  dereferenced by the Go code, which panics. The logging calls are left out.
\<close>

definition V2Server_ProcessAuthenticateMessage ::
  "'h prims \<Rightarrow> 'h SessionData \<Rightarrow> addr \<Rightarrow> heap \<Rightarrow> err \<times> 'h SessionData \<times> heap" where
  "V2Server_ProcessAuthenticateMessage P n am h =
     (let n = n\<lparr>authenticateMessage := Some am\<rparr> in
      case h am of
        None \<Rightarrow> (Some RuntimePanic, n, h)
      | Some m \<Rightarrow>
     (let n = n\<lparr>NegotiateFlags := am_NegotiateFlags m\<rparr>;
          n = n\<lparr>clientChallenge := am_ClientChallenge m\<rparr>;
          n = n\<lparr>encryptedRandomSessionKey := am_EncryptedRandomSessionKey m\<rparr>;
          n = n\<lparr>user := am_UserName m\<rparr>;
          n = n\<lparr>userDomain := am_DomainName m\<rparr>;
          n = n\<lparr>workstation := am_Workstation m\<rparr>;
          (e, n) = V2_fetchResponseKeys P n
      in if e \<noteq> None then (e, n, h) else
      case am_NtlmV2Response m of
        None \<Rightarrow> (Some RuntimePanic, n, h)
      | Some r \<Rightarrow>
     (let timestamp = TimeStamp r;
          avPairsBytes = AvPairsBytes r;
          (e, n) = V2_computeExpectedResponses P timestamp avPairsBytes n
      in if e \<noteq> None then (e, n, h) else
      if am_NtChallengeResponseFields m \<noteq> ntChallengeResponse n
         \<and> am_LmChallengeResponse m \<noteq> lmChallengeResponse n
      then (Some CouldNotAuthenticate, n, h) else
     (let (e, n) = V2_computeKeyExchangeKey n
      in if e \<noteq> None then (e, n, h) else
     (let n = n\<lparr>mic := am_Mic m\<rparr>;
          m = m\<lparr>am_Mic := zeroBytes 16\<rparr>;
          h = h(am \<mapsto> m);
          (e, n) = V2Server_computeExportedSessionKey P n
      in if e \<noteq> None then (e, n, h) else
     (let m = (if am_Version m = None then m\<lparr>am_Version := Some defaultVersion\<rparr> else m);
          h = h(am \<mapsto> m);
          (e, n) = V2_calculateKeys P (NTLMRevisionCurrent (the (am_Version m))) n
      in if e \<noteq> None then (e, n, h) else
     (let (c, e) = rc4Init P (ClientSealingKey n);
          n = n\<lparr>clientHandle := c\<rparr>
      in if e \<noteq> None then (lift_err e, n, h) else
     (let (c, e) = rc4Init P (ServerSealingKey n);
          n = n\<lparr>serverHandle := c\<rparr>
      in if e \<noteq> None then (lift_err e, n, h) else
      (None, n, h)))))))))"

section \<open>NTLMv2: client session (ntlmv2.go)\<close>

text \<open>
  \<open>randomBytes\<close> is the random source as it answers during the call: \<open>randomBytes 16\<close> is
  what \<^verbatim>\<open>randomBytes(16)\<close> returns.
\<close>

definition V2Client_computeEncryptedSessionKey ::
  "'h prims \<Rightarrow> (nat \<Rightarrow> bytes) \<Rightarrow> 'h SessionData \<Rightarrow> err \<times> 'h SessionData" where
  "V2Client_computeEncryptedSessionKey P randomBytes n =
     (if IsSet NTLMSSP_NEGOTIATE_KEY_EXCH (NegotiateFlags n) then
        (let n = n\<lparr>exportedSessionKey := randomBytes 16\<rparr>;
             (k, e) = rc4K P (keyExchangeKey n) (exportedSessionKey n);
             n = n\<lparr>encryptedRandomSessionKey := k\<rparr>
         in if e \<noteq> None then (lift_err e, n) else (None, n))
      else (None, n\<lparr>encryptedRandomSessionKey := keyExchangeKey n\<rparr>))"

section \<open>Helper functions (ntlmv2.go)\<close>

text \<open>
  \<^verbatim>\<open>binary.Write(buffer, binary.LittleEndian, ll)\<close> with an \<^verbatim>\<open>int64\<close> appends its eight
  bytes, least significant first. A \<^verbatim>\<open>time.Time\<close> enters only through \<^verbatim>\<open>t.Unix()\<close>, an
  \<^verbatim>\<open>int64\<close>, so a time is given by that value.
\<close>

definition LittleEndian_int64 :: "int64 \<Rightarrow> bytes" where
  "LittleEndian_int64 v = map (\<lambda>i. ucast (drop_bit (8 * i) v)) [0..<8]"

type_synonym Time = int64

definition timeToWindowsFileTime :: "Time \<Rightarrow> bytes" where
  "timeToWindowsFileTime t_Unix =
     (let ll = t_Unix * 10000000 + 116444736000000000
      in [] @ LittleEndian_int64 ll)"


section \<open>NTLMv1: password hash functions (ntlmv1.go)\<close>

text \<open>\<^verbatim>\<open>[]byte(s)\<close>: the bytes of a Go string.\<close>

definition bytes_of_string :: "string \<Rightarrow> bytes" where
  "bytes_of_string s = map (\<lambda>c. of_nat (of_char c)) s"

definition ntowfv1 :: "'h prims \<Rightarrow> string \<Rightarrow> bytes" where
  "ntowfv1 P passwd = md4 P (utf16FromString P passwd)"

text \<open>
  \<^verbatim>\<open>keyBytes\<close> has 14 bytes, so \<^verbatim>\<open>keyBytes[0:7]\<close> and \<^verbatim>\<open>keyBytes[7:14]\<close> are in range.
  On an error of \<^verbatim>\<open>des\<close> the function returns \<^verbatim>\<open>nil, err\<close>.
\<close>

definition lmowfv1 :: "'h prims \<Rightarrow> string \<Rightarrow> bytes \<times> err" where
  "lmowfv1 P passwd =
     (let asciiPassword = bytes_of_string (ToUpper P passwd);
          keyBytes = zeroPaddedBytes asciiPassword 0 14;
          (first, e) = des P (take 7 keyBytes) (bytes_of_string ''KGS!@#$%'')
      in if e \<noteq> None then ([], lift_err e) else
     (let (second, e) = des P (take 7 (drop 7 keyBytes)) (bytes_of_string ''KGS!@#$%'')
      in if e \<noteq> None then ([], lift_err e) else
      (first @ second, None)))"

section \<open>NTLMv1: shared session methods (ntlmv1.go)\<close>

definition V1_fetchResponseKeys :: "'h prims \<Rightarrow> 'h SessionData \<Rightarrow> err \<times> 'h SessionData" where
  "V1_fetchResponseKeys P n =
     (let (k, e) = lmowfv1 P (password n);
          n = n\<lparr>responseKeyLM := k\<rparr>
      in if e \<noteq> None then (e, n) else
      (None, n\<lparr>responseKeyNT := ntowfv1 P (password n)\<rparr>))"

text \<open>
  \<^verbatim>\<open>md5(...)[0:8]\<close> panics when the slice is shorter than 8 bytes (MD5 gives 16).
  \<^verbatim>\<open>make([]byte, 16)\<close> is 16 zero bytes. The local \<^verbatim>\<open>noLmResponseNtlmV1\<close> is the
  constant false of the source, and both of its branches are kept.
\<close>

definition V1_computeExpectedResponses :: "'h prims \<Rightarrow> 'h SessionData \<Rightarrow> err \<times> 'h SessionData" where
  "V1_computeExpectedResponses P n =
     (if IsSet NTLMSSP_NEGOTIATE_EXTENDED_SESSIONSECURITY (NegotiateFlags n) then
        (let digest = md5 P (concat_bytes [serverChallenge n, clientChallenge n])
         in if length digest < 8 then (Some RuntimePanic, n) else
        (let (r, e) = desL P (responseKeyNT n) (take 8 digest);
             n = n\<lparr>ntChallengeResponse := r\<rparr>
         in if e \<noteq> None then (lift_err e, n) else
         (None, n\<lparr>lmChallengeResponse := concat_bytes [clientChallenge n, replicate 16 0]\<rparr>)))
      else
        (let (r, e) = desL P (responseKeyNT n) (serverChallenge n);
             n = n\<lparr>ntChallengeResponse := r\<rparr>
         in if e \<noteq> None then (lift_err e, n) else
        (let noLmResponseNtlmV1 = False
         in if noLmResponseNtlmV1 then (None, n\<lparr>lmChallengeResponse := ntChallengeResponse n\<rparr>)
         else
        (let (r, e) = desL P (responseKeyLM n) (serverChallenge n);
             n = n\<lparr>lmChallengeResponse := r\<rparr>
         in if e \<noteq> None then (lift_err e, n) else (None, n)))))"

definition V1_computeSessionBaseKey :: "'h prims \<Rightarrow> 'h SessionData \<Rightarrow> err \<times> 'h SessionData" where
  "V1_computeSessionBaseKey P n = (None, n\<lparr>sessionBaseKey := md4 P (responseKeyNT n)\<rparr>)"

text \<open>\<^verbatim>\<open>n.lmChallengeResponse[0:8]\<close> panics on a response shorter than 8 bytes.\<close>

definition V1_computeKeyExchangeKey :: "'h prims \<Rightarrow> 'h SessionData \<Rightarrow> err \<times> 'h SessionData" where
  "V1_computeKeyExchangeKey P n =
     (if IsSet NTLMSSP_NEGOTIATE_EXTENDED_SESSIONSECURITY (NegotiateFlags n) then
        (if length (lmChallengeResponse n) < 8 then (Some RuntimePanic, n) else
         (None, n\<lparr>keyExchangeKey :=
                    hmacMd5 P (sessionBaseKey n)
                      (concat_bytes [serverChallenge n, take 8 (lmChallengeResponse n)])\<rparr>))
      else
        (let (k, e) = kxKey P (NegotiateFlags n) (sessionBaseKey n) (lmChallengeResponse n)
                        (serverChallenge n) (responseKeyLM n)
         in (lift_err e, n\<lparr>keyExchangeKey := k\<rparr>)))"

definition V1_calculateKeys :: "'h prims \<Rightarrow> 8 word \<Rightarrow> 'h SessionData \<Rightarrow> err \<times> 'h SessionData" where
  "V1_calculateKeys P ntlmRevisionCurrent n =
     (let n = n\<lparr>ClientSigningKey := signKey P (NegotiateFlags n) (exportedSessionKey n) ''Client''\<rparr>;
          n = n\<lparr>ServerSigningKey := signKey P (NegotiateFlags n) (exportedSessionKey n) ''Server''\<rparr>;
          n = n\<lparr>ClientSealingKey := sealKey P (NegotiateFlags n) (exportedSessionKey n) ''Client''\<rparr>;
          n = n\<lparr>ServerSealingKey := sealKey P (NegotiateFlags n) (exportedSessionKey n) ''Server''\<rparr>
      in (None, n))"

definition V1_Seal :: "'h SessionData \<Rightarrow> bytes \<Rightarrow> bytes option \<times> err" where
  "V1_Seal n message = (None, None)"

definition V1_Sign :: "'h SessionData \<Rightarrow> bytes \<Rightarrow> bytes option \<times> err" where
  "V1_Sign n message = (None, None)"

definition ntlmV1Mac ::
  "'h prims \<Rightarrow> bytes \<Rightarrow> int \<Rightarrow> 'h option \<Rightarrow> bytes \<Rightarrow> bytes \<Rightarrow> uint32 \<Rightarrow> bytes \<times> 'h option" where
  "ntlmV1Mac P message sequenceNumber handle sealingKey signingKey flags =
     (if IsSet NTLMSSP_NEGOTIATE_DATAGRAM flags
         \<and> IsSet NTLMSSP_NEGOTIATE_EXTENDED_SESSIONSECURITY flags
      then (fst (mac P flags (fst (reinitSealingKey P sealingKey sequenceNumber)) signingKey
                   (word_of_int sequenceNumber) message), handle)
      else if IsSet NTLMSSP_NEGOTIATE_DATAGRAM flags
      then (fst (mac P flags (fst (rc4Init P sealingKey)) signingKey
                   (word_of_int sequenceNumber) message), handle)
      else mac P flags handle signingKey (word_of_int sequenceNumber) message)"

definition V1Server_Mac ::
  "'h prims \<Rightarrow> 'h SessionData \<Rightarrow> bytes \<Rightarrow> int \<Rightarrow> (bytes \<times> err) \<times> 'h SessionData" where
  "V1Server_Mac P n message sequenceNumber =
     (let (m, h) = ntlmV1Mac P message sequenceNumber (serverHandle n) (ServerSealingKey n)
                     (ServerSigningKey n) (NegotiateFlags n)
      in ((m, None), n\<lparr>serverHandle := h\<rparr>))"

definition V1Client_Mac ::
  "'h prims \<Rightarrow> 'h SessionData \<Rightarrow> bytes \<Rightarrow> int \<Rightarrow> (bytes \<times> err) \<times> 'h SessionData" where
  "V1Client_Mac P n message sequenceNumber =
     (let (m, h) = ntlmV1Mac P message sequenceNumber (clientHandle n) (ClientSealingKey n)
                     (ClientSigningKey n) (NegotiateFlags n)
      in ((m, None), n\<lparr>clientHandle := h\<rparr>))"

definition V1Server_VerifyMac ::
  "'h prims \<Rightarrow> 'h SessionData \<Rightarrow> bytes \<Rightarrow> bytes \<Rightarrow> int \<Rightarrow> (bool \<times> err) \<times> 'h SessionData" where
  "V1Server_VerifyMac P n message expectedMac sequenceNumber =
     (let (m, h) = ntlmV1Mac P message sequenceNumber (clientHandle n) (ClientSealingKey n)
                     (ClientSigningKey n) (NegotiateFlags n)
      in ((MacsEqual P m expectedMac, None), n\<lparr>clientHandle := h\<rparr>))"

definition V1Client_VerifyMac ::
  "'h prims \<Rightarrow> 'h SessionData \<Rightarrow> bytes \<Rightarrow> bytes \<Rightarrow> int \<Rightarrow> (bool \<times> err) \<times> 'h SessionData" where
  "V1Client_VerifyMac P n message expectedMac sequenceNumber =
     (let (m, h) = ntlmV1Mac P message sequenceNumber (serverHandle n) (ServerSealingKey n)
                     (ServerSigningKey n) (NegotiateFlags n)
      in ((MacsEqual P m expectedMac, None), n\<lparr>serverHandle := h\<rparr>))"

section \<open>NTLMv1: server session (ntlmv1.go)\<close>

definition V1Server_computeExportedSessionKey ::
  "'h prims \<Rightarrow> 'h SessionData \<Rightarrow> err \<times> 'h SessionData" where
  "V1Server_computeExportedSessionKey P n =
     (if IsSet NTLMSSP_NEGOTIATE_KEY_EXCH (NegotiateFlags n) then
        (let (k, e) = rc4K P (keyExchangeKey n) (encryptedRandomSessionKey n);
             n = n\<lparr>exportedSessionKey := k\<rparr>
         in if e \<noteq> None then (lift_err e, n) else (None, n))
      else (None, n\<lparr>exportedSessionKey := keyExchangeKey n\<rparr>))"

definition V1Server_ProcessAuthenticateMessage ::
  "'h prims \<Rightarrow> 'h SessionData \<Rightarrow> addr \<Rightarrow> heap \<Rightarrow> err \<times> 'h SessionData \<times> heap" where
  "V1Server_ProcessAuthenticateMessage P n am h =
     (let n = n\<lparr>authenticateMessage := Some am\<rparr> in
      case h am of
        None \<Rightarrow> (Some RuntimePanic, n, h)
      | Some m \<Rightarrow>
     (let n = n\<lparr>NegotiateFlags := am_NegotiateFlags m\<rparr>;
          n = n\<lparr>clientChallenge := am_ClientChallenge m\<rparr>;
          n = n\<lparr>encryptedRandomSessionKey := am_EncryptedRandomSessionKey m\<rparr>;
          n = n\<lparr>user := am_UserName m\<rparr>;
          n = n\<lparr>userDomain := am_DomainName m\<rparr>;
          (e, n) = V1_fetchResponseKeys P n
      in if e \<noteq> None then (e, n, h) else
     (let (e, n) = V1_computeExpectedResponses P n
      in if e \<noteq> None then (e, n, h) else
     (let (e, n) = V1_computeSessionBaseKey P n
      in if e \<noteq> None then (e, n, h) else
     (let (e, n) = V1_computeKeyExchangeKey P n
      in if e \<noteq> None then (e, n, h) else
      if am_NtChallengeResponseFields m \<noteq> ntChallengeResponse n
         \<and> (am_LmChallengeResponse m \<noteq> lmChallengeResponse n
              \<or> IsSet NTLMSSP_NEGOTIATE_EXTENDED_SESSIONSECURITY (NegotiateFlags n))
      then (Some CouldNotAuthenticate, n, h) else
     (let n = n\<lparr>mic := am_Mic m\<rparr>;
          m = m\<lparr>am_Mic := zeroBytes 16\<rparr>;
          h = h(am \<mapsto> m);
          (e, n) = V1Server_computeExportedSessionKey P n
      in if e \<noteq> None then (e, n, h) else
     (let m = (if am_Version m = None then m\<lparr>am_Version := Some defaultVersion\<rparr> else m);
          h = h(am \<mapsto> m);
          (e, n) = V1_calculateKeys P (NTLMRevisionCurrent (the (am_Version m))) n
      in if e \<noteq> None then (e, n, h) else
     (let (c, e) = rc4Init P (ClientSealingKey n);
          n = n\<lparr>clientHandle := c\<rparr>
      in if e \<noteq> None then (lift_err e, n, h) else
     (let (c, e) = rc4Init P (ServerSealingKey n);
          n = n\<lparr>serverHandle := c\<rparr>
      in if e \<noteq> None then (lift_err e, n, h) else
      (None, n, h))))))))))"

section \<open>NTLMv1: client session (ntlmv1.go)\<close>

definition V1Client_computeEncryptedSessionKey ::
  "'h prims \<Rightarrow> (nat \<Rightarrow> bytes) \<Rightarrow> 'h SessionData \<Rightarrow> err \<times> 'h SessionData" where
  "V1Client_computeEncryptedSessionKey P randomBytes n =
     (if IsSet NTLMSSP_NEGOTIATE_KEY_EXCH (NegotiateFlags n) then
        (let n = n\<lparr>exportedSessionKey := randomBytes 16\<rparr>;
             (k, e) = rc4K P (keyExchangeKey n) (exportedSessionKey n);
             n = n\<lparr>encryptedRandomSessionKey := k\<rparr>
         in if e \<noteq> None then (lift_err e, n) else (None, n))
      else (None, n\<lparr>encryptedRandomSessionKey := keyExchangeKey n\<rparr>))"


section \<open>The server's steps up to the response comparison\<close>

text \<open>
  The first part of \<^verbatim>\<open>ProcessAuthenticateMessage\<close>, from its first line to the last
  derivation before \<^verbatim>\<open>bytes.Equal\<close> (ntlmv2.go lines 199 to 221, ntlmv1.go lines 172 to
  200), with the same early returns. The properties below use it to name the expected
  responses that the comparison reads; \<open>m\<close> is the message \<open>am\<close> points to.
\<close>

definition V2Server_untilComparison ::
  "'h prims \<Rightarrow> 'h SessionData \<Rightarrow> addr \<Rightarrow> AuthenticateMessage \<Rightarrow> err \<times> 'h SessionData" where
  "V2Server_untilComparison P n am m =
     (let n = n\<lparr>authenticateMessage := Some am\<rparr>;
          n = n\<lparr>NegotiateFlags := am_NegotiateFlags m\<rparr>;
          n = n\<lparr>clientChallenge := am_ClientChallenge m\<rparr>;
          n = n\<lparr>encryptedRandomSessionKey := am_EncryptedRandomSessionKey m\<rparr>;
          n = n\<lparr>user := am_UserName m\<rparr>;
          n = n\<lparr>userDomain := am_DomainName m\<rparr>;
          n = n\<lparr>workstation := am_Workstation m\<rparr>;
          (e, n) = V2_fetchResponseKeys P n
      in if e \<noteq> None then (e, n) else
      case am_NtlmV2Response m of
        None \<Rightarrow> (Some RuntimePanic, n)
      | Some r \<Rightarrow> V2_computeExpectedResponses P (TimeStamp r) (AvPairsBytes r) n)"

definition V1Server_untilComparison ::
  "'h prims \<Rightarrow> 'h SessionData \<Rightarrow> addr \<Rightarrow> AuthenticateMessage \<Rightarrow> err \<times> 'h SessionData" where
  "V1Server_untilComparison P n am m =
     (let n = n\<lparr>authenticateMessage := Some am\<rparr>;
          n = n\<lparr>NegotiateFlags := am_NegotiateFlags m\<rparr>;
          n = n\<lparr>clientChallenge := am_ClientChallenge m\<rparr>;
          n = n\<lparr>encryptedRandomSessionKey := am_EncryptedRandomSessionKey m\<rparr>;
          n = n\<lparr>user := am_UserName m\<rparr>;
          n = n\<lparr>userDomain := am_DomainName m\<rparr>;
          (e, n) = V1_fetchResponseKeys P n
      in if e \<noteq> None then (e, n) else
     (let (e, n) = V1_computeExpectedResponses P n
      in if e \<noteq> None then (e, n) else
     (let (e, n) = V1_computeSessionBaseKey P n
      in if e \<noteq> None then (e, n) else
      V1_computeKeyExchangeKey P n)))"

text \<open>
  The rest of \<^verbatim>\<open>ProcessAuthenticateMessage\<close>, from the line after the comparison to the
  final \<^verbatim>\<open>return nil\<close> (ntlmv2.go lines 229 to 264, ntlmv1.go lines 212 to 241). In v2
  the key-exchange key is computed here, after the comparison; in v1 it was computed before.
\<close>

definition V2Server_afterComparison ::
  "'h prims \<Rightarrow> 'h SessionData \<Rightarrow> addr \<Rightarrow> AuthenticateMessage \<Rightarrow> heap
     \<Rightarrow> err \<times> 'h SessionData \<times> heap" where
  "V2Server_afterComparison P n am m h =
     (let (e, n) = V2_computeKeyExchangeKey n
      in if e \<noteq> None then (e, n, h) else
     (let n = n\<lparr>mic := am_Mic m\<rparr>;
          m = m\<lparr>am_Mic := zeroBytes 16\<rparr>;
          h = h(am \<mapsto> m);
          (e, n) = V2Server_computeExportedSessionKey P n
      in if e \<noteq> None then (e, n, h) else
     (let m = (if am_Version m = None then m\<lparr>am_Version := Some defaultVersion\<rparr> else m);
          h = h(am \<mapsto> m);
          (e, n) = V2_calculateKeys P (NTLMRevisionCurrent (the (am_Version m))) n
      in if e \<noteq> None then (e, n, h) else
     (let (c, e) = rc4Init P (ClientSealingKey n);
          n = n\<lparr>clientHandle := c\<rparr>
      in if e \<noteq> None then (lift_err e, n, h) else
     (let (c, e) = rc4Init P (ServerSealingKey n);
          n = n\<lparr>serverHandle := c\<rparr>
      in if e \<noteq> None then (lift_err e, n, h) else
      (None, n, h))))))"

definition V1Server_afterComparison ::
  "'h prims \<Rightarrow> 'h SessionData \<Rightarrow> addr \<Rightarrow> AuthenticateMessage \<Rightarrow> heap
     \<Rightarrow> err \<times> 'h SessionData \<times> heap" where
  "V1Server_afterComparison P n am m h =
     (let n = n\<lparr>mic := am_Mic m\<rparr>;
          m = m\<lparr>am_Mic := zeroBytes 16\<rparr>;
          h = h(am \<mapsto> m);
          (e, n) = V1Server_computeExportedSessionKey P n
      in if e \<noteq> None then (e, n, h) else
     (let m = (if am_Version m = None then m\<lparr>am_Version := Some defaultVersion\<rparr> else m);
          h = h(am \<mapsto> m);
          (e, n) = V1_calculateKeys P (NTLMRevisionCurrent (the (am_Version m))) n
      in if e \<noteq> None then (e, n, h) else
     (let (c, e) = rc4Init P (ClientSealingKey n);
          n = n\<lparr>clientHandle := c\<rparr>
      in if e \<noteq> None then (lift_err e, n, h) else
     (let (c, e) = rc4Init P (ServerSealingKey n);
          n = n\<lparr>serverHandle := c\<rparr>
      in if e \<noteq> None then (lift_err e, n, h) else
      (None, n, h)))))"

text \<open>
  A frame for the derivation steps of a session. \<open>derivesOnly n n'\<close>: from \<open>n\<close> to \<open>n'\<close>
  nothing changed but the response keys, the expected responses, the session base key and
  the key-exchange key.
\<close>

definition derivesOnly :: "'h SessionData \<Rightarrow> 'h SessionData \<Rightarrow> bool" where
  "derivesOnly n n' =
     (n'\<lparr>responseKeyLM := responseKeyLM n, responseKeyNT := responseKeyNT n,
         ntChallengeResponse := ntChallengeResponse n,
         lmChallengeResponse := lmChallengeResponse n,
         sessionBaseKey := sessionBaseKey n, keyExchangeKey := keyExchangeKey n\<rparr> = n)"

text \<open>
  What a failed authentication is compared on: \<open>keysAndHandlesKept n n'\<close> says that
  \<open>mic\<close>, the exported session key, the four signing and sealing keys and the two RC4
  handles are in \<open>n'\<close> what they were in \<open>n\<close>; \<open>loadedFromMessage n' am m\<close> says that the
  session holds the pointer to the message and the fields copied from it.
\<close>

definition keysAndHandlesKept :: "'h SessionData \<Rightarrow> 'h SessionData \<Rightarrow> bool" where
  "keysAndHandlesKept n n' =
     (mic n' = mic n \<and> exportedSessionKey n' = exportedSessionKey n
      \<and> ClientSigningKey n' = ClientSigningKey n \<and> ServerSigningKey n' = ServerSigningKey n
      \<and> ClientSealingKey n' = ClientSealingKey n \<and> ServerSealingKey n' = ServerSealingKey n
      \<and> clientHandle n' = clientHandle n \<and> serverHandle n' = serverHandle n)"

definition loadedFromMessage :: "'h SessionData \<Rightarrow> addr \<Rightarrow> AuthenticateMessage \<Rightarrow> bool" where
  "loadedFromMessage n' am m =
     (authenticateMessage n' = Some am \<and> NegotiateFlags n' = am_NegotiateFlags m
      \<and> clientChallenge n' = am_ClientChallenge m
      \<and> encryptedRandomSessionKey n' = am_EncryptedRandomSessionKey m
      \<and> user n' = am_UserName m \<and> userDomain n' = am_DomainName m)"

section \<open>A stand-in for the primitives, and sample inputs\<close>

text \<open>
  To run the session code on concrete inputs the primitives need an implementation. This
  one is not cryptography: it only has the shape the spec gives the primitives (a 16-byte
  digest taken from the end of its input, a 24-byte DESL, an RC4 that rejects an empty key
  or one above 256 bytes and whose cipher state is its key and the number of bytes
  encrypted, a 16-byte signature that ends with the sequence number). It is used where a
  statement is evaluated at an input, never in a statement about all primitives.
\<close>

definition LittleEndian_uint32 :: "uint32 \<Rightarrow> bytes" where
  "LittleEndian_uint32 v = map (\<lambda>i. ucast (drop_bit (8 * i) v)) [0..<4]"

definition toyDigest :: "bytes \<Rightarrow> bytes" where
  "toyDigest b = take 16 (rev b @ replicate 16 0x5c)"

definition toyUpper :: "char \<Rightarrow> char" where
  "toyUpper c = (let v = (of_char c :: nat)
                 in if 97 \<le> v \<and> v \<le> 122 then char_of (v - 32) else c)"

definition toyPrims :: "(bytes \<times> nat) prims" where
  "toyPrims = \<lparr>
     md4 = (\<lambda>b. toyDigest (0x4d # b)),
     md5 = (\<lambda>b. toyDigest (0x35 # b)),
     hmacMd5 = (\<lambda>k b. toyDigest (k @ 0x5c # b)),
     des = (\<lambda>k d. if length k \<noteq> 7 then ([], Some ''des: invalid key size'')
                    else (take 8 (toyDigest (k @ d)), None)),
     desL = (\<lambda>k d. (take 24 (rev d @ k @ replicate 24 0xde), None)),
     rc4K = (\<lambda>k d. if k = [] \<or> 256 < length k then ([], Some ''rc4: invalid key size'')
                     else (map (\<lambda>x. x XOR 0x5a) d, None)),
     rc4Init = (\<lambda>k. if k = [] \<or> 256 < length k then (None, Some ''rc4: invalid key size'')
                      else (Some (k, 0), None)),
     reinitSealingKey = (\<lambda>k s. (Some (toyDigest (k @ LittleEndian_uint32 (word_of_int s)), 0), None)),
     mac = (\<lambda>flags h k s m.
              ([1, 0, 0, 0] @ take 8 (toyDigest (k @ LittleEndian_uint32 s @ m))
                 @ LittleEndian_uint32 s,
               map_option (\<lambda>(key, pos). (key, pos + 8)) h)),
     signKey = (\<lambda>flags k side. toyDigest (k @ bytes_of_string side @ [0x51])),
     sealKey = (\<lambda>flags k side. toyDigest (k @ bytes_of_string side @ [0x5e])),
     kxKey = (\<lambda>flags sbk lm sc rk. (toyDigest (sbk @ lm), None)),
     utf16FromString = (\<lambda>s. concat (map (\<lambda>c. [of_nat (of_char c), 0]) s)),
     ToUpper = map toyUpper,
     MacsEqual = (\<lambda>mac1 mac2. mac1 = mac2) \<rparr>"

text \<open>
  A server session that knows the password and has sent its challenge, and an AUTHENTICATE
  message whose NT and LM responses are empty, so that neither can match.
\<close>

definition sampleSession :: "(bytes \<times> nat) SessionData" where
  "sampleSession = zeroSession\<lparr> password := ''Password'',
      serverChallenge := [0x01, 0x23, 0x45, 0x67, 0x89, 0xab, 0xcd, 0xef],
      clientChallenge := replicate 8 0xaa \<rparr>"

definition sampleMessage :: AuthenticateMessage where
  "sampleMessage = \<lparr>
     am_NegotiateFlags = NTLMSSP_NEGOTIATE_EXTENDED_SESSIONSECURITY,
     am_ClientChallenge = replicate 8 0xaa,
     am_EncryptedRandomSessionKey = [],
     am_UserName = ''User'',
     am_DomainName = ''Domain'',
     am_Workstation = ''COMPUTER'',
     am_NtlmV2Response = Some \<lparr> TimeStamp = replicate 8 0, AvPairsBytes = [0, 0, 0, 0] \<rparr>,
     am_NtChallengeResponseFields = [],
     am_LmChallengeResponse = [],
     am_Mic = replicate 16 0x77,
     am_Version = None \<rparr>"

text \<open>
  The same message in NTLMv1 classic mode (no flag set); a message whose LM response is the
  one NTLMv1 expects under extended session security while its NT response is wrong; and
  messages that carry the NT response the server expects, as a client that ran the same
  derivation would send them.
\<close>

definition classicMessage :: AuthenticateMessage where
  "classicMessage = sampleMessage\<lparr> am_NegotiateFlags := 0 \<rparr>"

definition lmOnlyMessage :: AuthenticateMessage where
  "lmOnlyMessage = sampleMessage\<lparr> am_LmChallengeResponse := replicate 8 0xaa @ replicate 16 0 \<rparr>"

definition goodMessageV2 :: AuthenticateMessage where
  "goodMessageV2 = sampleMessage\<lparr> am_NtChallengeResponseFields :=
     ntChallengeResponse (snd (V2Server_untilComparison toyPrims sampleSession 0 sampleMessage)) \<rparr>"

definition goodMessageV1 :: AuthenticateMessage where
  "goodMessageV1 = classicMessage\<lparr> am_NtChallengeResponseFields :=
     ntChallengeResponse (snd (V1Server_untilComparison toyPrims sampleSession 0 classicMessage)) \<rparr>"

text \<open>
  Sessions at the point where \<^verbatim>\<open>computeExpectedResponses\<close> runs (response keys and both
  challenges set), with and without extended session security, and a client session that
  holds a key-exchange key and negotiated no key exchange.
\<close>

definition keyedSession :: "(bytes \<times> nat) SessionData" where
  "keyedSession = sampleSession\<lparr> responseKeyNT := replicate 16 0x11,
      responseKeyLM := replicate 16 0x22 \<rparr>"

definition keyedSessionExt :: "(bytes \<times> nat) SessionData" where
  "keyedSessionExt = keyedSession\<lparr> NegotiateFlags := NTLMSSP_NEGOTIATE_EXTENDED_SESSIONSECURITY \<rparr>"

definition clientSessionNoKeyExch :: "(bytes \<times> nat) SessionData" where
  "clientSessionNoKeyExch = keyedSession\<lparr> keyExchangeKey := replicate 16 0x33 \<rparr>"

definition sampleRandomBytes :: "nat \<Rightarrow> bytes" where
  "sampleRandomBytes k = replicate k 0x42"

section \<open>Properties: timestamp, stubs and the v2 one-way functions\<close>

lemma byte_of_int64:
  "uint (ucast (drop_bit k (v :: int64)) :: byte) = take_bit 8 (drop_bit k (uint v))"
proof -
  have "take_bit 64 (uint v) = uint v"
    by (rule take_bit_int_eq_self) (use uint_bounded [of v] in simp_all)
  then show ?thesis
    by (simp add: unsigned_ucast_eq unsigned_drop_bit_eq)
qed

lemma take_bit_split:
  "take_bit (m + n) (x :: int) = take_bit m x + 2 ^ m * take_bit n (drop_bit m x)"
proof -
  have "push_bit m (drop_bit m (take_bit (m + n) x)) + take_bit m (take_bit (m + n) x)
          = take_bit (m + n) x"
    by (rule bits_ident)
  moreover have "drop_bit m (take_bit (m + n) x) = take_bit n (drop_bit m x)"
    by (simp add: take_bit_drop_bit add.commute)
  moreover have "take_bit m (take_bit (m + n) x) = take_bit m x"
    by simp
  ultimately show ?thesis
    by (simp add: push_bit_eq_mult mult.commute add.commute)
qed

lemma little_endian_prefix:
  "horner_sum uint 256 (map (\<lambda>i. (ucast (drop_bit (8 * i) (v :: int64)) :: byte)) [0..<k])
     = take_bit (8 * k) (uint v)"
proof (induction k)
  case 0
  then show ?case by simp
next
  case (Suc k)
  have "take_bit (8 * Suc k) (uint v)
          = take_bit (8 * k) (uint v) + 2 ^ (8 * k) * take_bit 8 (drop_bit (8 * k) (uint v))"
    using take_bit_split [of "8 * k" 8 "uint v"] by (simp add: add.commute)
  then show ?case
    using Suc by (simp add: horner_sum_append byte_of_int64 power_mult)
qed

lemma LittleEndian_int64_value: "horner_sum uint 256 (LittleEndian_int64 v) = uint v"
proof -
  have "take_bit 64 (uint v) = uint v"
    by (rule take_bit_int_eq_self) (use uint_bounded [of v] in simp_all)
  then show ?thesis
    using little_endian_prefix [of v 8] by (simp add: LittleEndian_int64_def)
qed

lemma LittleEndian_int64_word: "word_rcat (rev (LittleEndian_int64 v)) = v"
  by (simp add: word_rcat_def LittleEndian_int64_value)

lemma filetime_no_overflow:
  fixes t :: int64
  assumes "- (2 ^ 63) \<le> sint t * 10000000 + 116444736000000000"
    and "sint t * 10000000 + 116444736000000000 < 2 ^ 63"
  shows "sint (t * 10000000 + 116444736000000000) = sint t * 10000000 + 116444736000000000"
proof -
  have "t * 10000000 + 116444736000000000
          = (word_of_int (sint t * 10000000 + 116444736000000000) :: int64)"
    by simp
  then have "sint (t * 10000000 + 116444736000000000)
          = signed_take_bit 63 (sint t * 10000000 + 116444736000000000)"
    by (simp only: signed_of_int) simp
  also have "\<dots> = sint t * 10000000 + 116444736000000000"
    by (rule signed_take_bit_int_eq_self) (use assms in simp_all)
  finally show ?thesis .
qed

text \<open>
  C9. For every time \<open>t\<close>, given by its \<^verbatim>\<open>t.Unix()\<close>, \<^verbatim>\<open>timeToWindowsFileTime\<close> returns
  exactly 8 bytes, and read little-endian they are the 64-bit value
  \<open>unix_seconds * 10000000 + 116444736000000000\<close> of the \<^verbatim>\<open>int64\<close> arithmetic: as a word
  (\<open>word_rcat\<close> reads most significant byte first, hence the \<open>rev\<close>), as the unsigned
  number the bytes spell, and, whenever the sum fits in 64 signed bits, as exactly that
  signed integer. At 1970-01-01 00:00:00 UTC (\<open>t.Unix() = 0\<close>) the bytes are the
  little-endian encoding of 116444736000000000.
\<close>

theorem timeToWindowsFileTime_little_endian:
  "length (timeToWindowsFileTime t) = 8
   \<and> word_rcat (rev (timeToWindowsFileTime t)) = t * 10000000 + (116444736000000000 :: int64)
   \<and> horner_sum uint 256 (timeToWindowsFileTime t) = uint (t * 10000000 + 116444736000000000)
   \<and> (- (2 ^ 63) \<le> sint t * 10000000 + 116444736000000000
        \<and> sint t * 10000000 + 116444736000000000 < 2 ^ 63
      \<longrightarrow> sint (word_rcat (rev (timeToWindowsFileTime t)) :: int64)
            = sint t * 10000000 + 116444736000000000)
   \<and> timeToWindowsFileTime 0 = [0x00, 0x80, 0x3E, 0xD5, 0xDE, 0xB1, 0x9D, 0x01]
   \<and> horner_sum uint 256 (timeToWindowsFileTime 0) = 116444736000000000"
proof -
  have len: "length (timeToWindowsFileTime t) = 8"
    by (simp add: timeToWindowsFileTime_def LittleEndian_int64_def)
  have w: "word_rcat (rev (timeToWindowsFileTime t)) = t * 10000000 + (116444736000000000 :: int64)"
    by (simp add: timeToWindowsFileTime_def LittleEndian_int64_word)
  have u: "horner_sum uint 256 (timeToWindowsFileTime t) = uint (t * 10000000 + 116444736000000000)"
    by (simp add: timeToWindowsFileTime_def LittleEndian_int64_value)
  have s: "sint (word_rcat (rev (timeToWindowsFileTime t)) :: int64)
             = sint t * 10000000 + 116444736000000000"
    if "- (2 ^ 63) \<le> sint t * 10000000 + 116444736000000000"
      and "sint t * 10000000 + 116444736000000000 < 2 ^ 63"
    using filetime_no_overflow [OF that] by (simp only: w)
  have z: "timeToWindowsFileTime 0 = [0x00, 0x80, 0x3E, 0xD5, 0xDE, 0xB1, 0x9D, 0x01]"
    by (simp add: timeToWindowsFileTime_def LittleEndian_int64_def upt_rec drop_bit_eq_div)
  have v: "horner_sum uint 256 (timeToWindowsFileTime 0) = 116444736000000000"
    by (simp only: z) simp
  from len w u s z v show ?thesis by blast
qed

theorem timeToWindowsFileTime_little_endian_witness:
  "(- (2 ^ 63) \<le> sint (1000000000 :: int64) * 10000000 + 116444736000000000
    \<and> sint (1000000000 :: int64) * 10000000 + 116444736000000000 < 2 ^ 63)
   \<and> sint (word_rcat (rev (timeToWindowsFileTime 1000000000)) :: int64) = 126444736000000000"
proof -
  have h: "- (2 ^ 63) \<le> sint (1000000000 :: int64) * 10000000 + 116444736000000000
           \<and> sint (1000000000 :: int64) * 10000000 + 116444736000000000 < 2 ^ 63"
    by simp
  with timeToWindowsFileTime_little_endian [of 1000000000]
  have "sint (word_rcat (rev (timeToWindowsFileTime 1000000000)) :: int64)
          = sint (1000000000 :: int64) * 10000000 + 116444736000000000"
    by blast
  with h show ?thesis by simp
qed

text \<open>
  C10. For every session, v1 or v2 (the client and the server session embed the shared
  one, so these are their methods too), in any state, and every message, \<^verbatim>\<open>Seal\<close> and
  \<^verbatim>\<open>Sign\<close> return a nil slice together with a nil error.
\<close>

theorem Seal_Sign_return_nil_nil:
  "V1_Seal n1 message = (None, None) \<and> V1_Sign n1 message = (None, None)
   \<and> V2_Seal n2 message = (None, None) \<and> V2_Sign n2 message = (None, None)"
  by (simp add: V1_Seal_def V1_Sign_def V2_Seal_def V2_Sign_def)

text \<open>
  C5. For every user, password and domain, \<^verbatim>\<open>ntowfv2\<close> is
  HMAC-MD5(MD4(UTF-16LE(passwd)), UTF-16LE(uppercase(user) followed by userDom)): only the
  user name goes through \<^verbatim>\<open>strings.ToUpper\<close>. \<^verbatim>\<open>lmowfv2\<close> returns the same value.
\<close>

theorem ntowfv2_lmowfv2:
  "ntowfv2 P usr passwd userDom
     = hmacMd5 P (md4 P (utf16FromString P passwd)) (utf16FromString P (ToUpper P usr @ userDom))
   \<and> lmowfv2 P usr passwd userDom = ntowfv2 P usr passwd userDom"
  by (simp add: ntowfv2_def lmowfv2_def)

section \<open>Properties: the expected responses\<close>

lemma toyDigest_length [simp]: "length (toyDigest b) = 16"
  by (simp add: toyDigest_def)

text \<open>
  C1. For every v2 session and every timestamp and AvPairs bytes, with an HMAC-MD5 of 16
  bytes: \<^verbatim>\<open>computeExpectedResponses\<close> returns no error and, with
  \<open>temp = 01 01 zeros(6) timestamp clientChallenge zeros(4) avPairBytes zeros(4)\<close>, sets
  the NT response to HMAC-MD5(responseKeyNT, serverChallenge temp) followed by \<open>temp\<close>,
  the LM response to HMAC-MD5(responseKeyLM, serverChallenge clientChallenge) followed by
  the client challenge, and the session base key to HMAC-MD5(responseKeyNT, ntProof), where
  ntProof is the first 16 bytes of the NT response; \<^verbatim>\<open>computeKeyExchangeKey\<close> then sets
  the key-exchange key to the session base key and changes nothing else.
\<close>

theorem V2_computeExpectedResponses_layout:
  assumes "\<forall>k b. length (hmacMd5 P k b) = 16"
  shows "let temp = [0x01] @ [0x01] @ replicate 6 0 @ timestamp @ clientChallenge n
                      @ replicate 4 0 @ avPairBytes @ replicate 4 0;
             ntProof = hmacMd5 P (responseKeyNT n) (serverChallenge n @ temp);
             r = V2_computeExpectedResponses P timestamp avPairBytes n;
             n' = snd r
         in fst r = None
          \<and> ntChallengeResponse n' = ntProof @ temp
          \<and> take 16 (ntChallengeResponse n') = ntProof
          \<and> lmChallengeResponse n'
              = hmacMd5 P (responseKeyLM n) (serverChallenge n @ clientChallenge n)
                  @ clientChallenge n
          \<and> sessionBaseKey n' = hmacMd5 P (responseKeyNT n) (take 16 (ntChallengeResponse n'))
          \<and> V2_computeKeyExchangeKey n' = (None, n'\<lparr>keyExchangeKey := sessionBaseKey n'\<rparr>)"
  using assms
  by (simp add: V2_computeExpectedResponses_def V2_computeKeyExchangeKey_def Let_def
      concat_bytes_def zeroBytes_def)

theorem V2_computeExpectedResponses_layout_witness:
  "(\<forall>k b. length (hmacMd5 toyPrims k b) = 16)
   \<and> (let temp = [0x01] @ [0x01] @ replicate 6 0 @ replicate 8 0 @ clientChallenge keyedSession
                      @ replicate 4 0 @ [2, 0, 0, 0] @ replicate 4 0;
             ntProof = hmacMd5 toyPrims (responseKeyNT keyedSession) (serverChallenge keyedSession @ temp);
             r = V2_computeExpectedResponses toyPrims (replicate 8 0) [2, 0, 0, 0] keyedSession;
             n' = snd r
         in fst r = None
          \<and> ntChallengeResponse n' = ntProof @ temp
          \<and> take 16 (ntChallengeResponse n') = ntProof
          \<and> lmChallengeResponse n'
              = hmacMd5 toyPrims (responseKeyLM keyedSession) (serverChallenge keyedSession @ clientChallenge keyedSession)
                  @ clientChallenge keyedSession
          \<and> sessionBaseKey n' = hmacMd5 toyPrims (responseKeyNT keyedSession) (take 16 (ntChallengeResponse n'))
          \<and> V2_computeKeyExchangeKey n' = (None, n'\<lparr>keyExchangeKey := sessionBaseKey n'\<rparr>))
   \<and> length (ntChallengeResponse (snd (V2_computeExpectedResponses toyPrims (replicate 8 0) [2, 0, 0, 0] keyedSession))) = 52"
proof -
  have h: "\<forall>k b. length (hmacMd5 toyPrims k b) = 16"
    by (simp add: toyPrims_def)
  have l: "length (ntChallengeResponse (snd (V2_computeExpectedResponses toyPrims (replicate 8 0) [2, 0, 0, 0] keyedSession))) = 52"
    by code_simp
  show ?thesis
    using h l V2_computeExpectedResponses_layout [OF h, where timestamp = "replicate 8 0"
        and n = keyedSession and avPairBytes = "[2, 0, 0, 0]"]
    by (simp add: Let_def)
qed

text \<open>
  C2. For every v1 session, \<^verbatim>\<open>computeExpectedResponses\<close> sets: with the
  extended-session-security flag (and an MD5 of at least the 8 bytes that are sliced off
  it), the NT response to what DESL(responseKeyNT, MD5(serverChallenge clientChallenge)[0:8])
  returns, its own error to DESL's, and, when that is nil, the LM response to the client
  challenge followed by 16 zero bytes; without the flag, the NT response to what
  DESL(responseKeyNT, serverChallenge) returns and, when that DESL gave no error, the LM
  response to what DESL(responseKeyLM, serverChallenge) returns. \<^verbatim>\<open>computeSessionBaseKey\<close>
  sets the session base key to MD4(responseKeyNT) and changes nothing else.
\<close>

theorem V1_computeExpectedResponses_paths:
  "(let sc = serverChallenge n; cc = clientChallenge n;
        ext = IsSet NTLMSSP_NEGOTIATE_EXTENDED_SESSIONSECURITY (NegotiateFlags n);
        r = V1_computeExpectedResponses P n; n' = snd r
    in (ext \<and> 8 \<le> length (md5 P (sc @ cc)) \<longrightarrow>
          ntChallengeResponse n' = fst (desL P (responseKeyNT n) (take 8 (md5 P (sc @ cc))))
          \<and> fst r = lift_err (snd (desL P (responseKeyNT n) (take 8 (md5 P (sc @ cc)))))
          \<and> (fst r = None \<longrightarrow> lmChallengeResponse n' = cc @ replicate 16 0))
     \<and> (\<not> ext \<longrightarrow>
          ntChallengeResponse n' = fst (desL P (responseKeyNT n) sc)
          \<and> (snd (desL P (responseKeyNT n) sc) = None \<longrightarrow>
               lmChallengeResponse n' = fst (desL P (responseKeyLM n) sc)
               \<and> fst r = lift_err (snd (desL P (responseKeyLM n) sc)))))
   \<and> V1_computeSessionBaseKey P n = (None, n\<lparr>sessionBaseKey := md4 P (responseKeyNT n)\<rparr>)"
proof (cases "IsSet NTLMSSP_NEGOTIATE_EXTENDED_SESSIONSECURITY (NegotiateFlags n)")
  case True
  then show ?thesis
    by (cases "snd (desL P (responseKeyNT n) (take 8 (md5 P (serverChallenge n @ clientChallenge n))))")
       (simp_all add: V1_computeExpectedResponses_def V1_computeSessionBaseKey_def Let_def split_def
          concat_bytes_def lift_err_def)
next
  case False
  then show ?thesis
    by (cases "snd (desL P (responseKeyNT n) (serverChallenge n))")
       (simp_all add: V1_computeExpectedResponses_def V1_computeSessionBaseKey_def Let_def split_def
          concat_bytes_def lift_err_def)
qed

theorem V1_computeExpectedResponses_paths_witness:
  "(IsSet NTLMSSP_NEGOTIATE_EXTENDED_SESSIONSECURITY (NegotiateFlags keyedSessionExt)
    \<and> 8 \<le> length (md5 toyPrims (serverChallenge keyedSessionExt @ clientChallenge keyedSessionExt))
    \<and> fst (V1_computeExpectedResponses toyPrims keyedSessionExt) = None
    \<and> ntChallengeResponse (snd (V1_computeExpectedResponses toyPrims keyedSessionExt))
        = fst (desL toyPrims (responseKeyNT keyedSessionExt)
                 (take 8 (md5 toyPrims (serverChallenge keyedSessionExt @ clientChallenge keyedSessionExt))))
    \<and> lmChallengeResponse (snd (V1_computeExpectedResponses toyPrims keyedSessionExt))
        = clientChallenge keyedSessionExt @ replicate 16 0)
   \<and> (\<not> IsSet NTLMSSP_NEGOTIATE_EXTENDED_SESSIONSECURITY (NegotiateFlags keyedSession)
    \<and> snd (desL toyPrims (responseKeyNT keyedSession) (serverChallenge keyedSession)) = None
    \<and> ntChallengeResponse (snd (V1_computeExpectedResponses toyPrims keyedSession))
        = fst (desL toyPrims (responseKeyNT keyedSession) (serverChallenge keyedSession))
    \<and> lmChallengeResponse (snd (V1_computeExpectedResponses toyPrims keyedSession))
        = fst (desL toyPrims (responseKeyLM keyedSession) (serverChallenge keyedSession)))
   \<and> length (ntChallengeResponse (snd (V1_computeExpectedResponses toyPrims keyedSession))) = 24"
proof -
  have e: "IsSet NTLMSSP_NEGOTIATE_EXTENDED_SESSIONSECURITY (NegotiateFlags keyedSessionExt)"
    by code_simp
  have l: "8 \<le> length (md5 toyPrims (serverChallenge keyedSessionExt @ clientChallenge keyedSessionExt))"
    by (simp add: toyPrims_def)
  have o: "fst (V1_computeExpectedResponses toyPrims keyedSessionExt) = None"
    by code_simp
  have c: "\<not> IsSet NTLMSSP_NEGOTIATE_EXTENDED_SESSIONSECURITY (NegotiateFlags keyedSession)"
    by code_simp
  have d: "snd (desL toyPrims (responseKeyNT keyedSession) (serverChallenge keyedSession)) = None"
    by (simp add: toyPrims_def)
  have k: "length (ntChallengeResponse (snd (V1_computeExpectedResponses toyPrims keyedSession))) = 24"
    by code_simp
  show ?thesis
    using e l o c d k
      V1_computeExpectedResponses_paths [of keyedSessionExt toyPrims]
      V1_computeExpectedResponses_paths [of keyedSession toyPrims]
    by (simp add: Let_def)
qed

section \<open>Properties: the steps of ProcessAuthenticateMessage\<close>

lemma lift_err_not_auth [simp]: "lift_err e \<noteq> Some CouldNotAuthenticate"
  by (cases e) (simp_all add: lift_err_def)

lemma derivesOnly_refl [simp]: "derivesOnly n n"
  by (simp add: derivesOnly_def)

lemma derivesOnly_trans: "derivesOnly a b \<Longrightarrow> derivesOnly b c \<Longrightarrow> derivesOnly a c"
  unfolding derivesOnly_def
  by (cases a, cases b, cases c) simp

lemma derivesOnly_fields:
  assumes "derivesOnly n n'"
  shows "user n' = user n" "password n' = password n" "userDomain n' = userDomain n"
    "workstation n' = workstation n" "NegotiateFlags n' = NegotiateFlags n"
    "serverChallenge n' = serverChallenge n" "clientChallenge n' = clientChallenge n"
    "exportedSessionKey n' = exportedSessionKey n"
    "encryptedRandomSessionKey n' = encryptedRandomSessionKey n"
    "ClientSigningKey n' = ClientSigningKey n" "ServerSigningKey n' = ServerSigningKey n"
    "ClientSealingKey n' = ClientSealingKey n" "ServerSealingKey n' = ServerSealingKey n"
    "clientHandle n' = clientHandle n" "serverHandle n' = serverHandle n"
    "negotiateMessage n' = negotiateMessage n" "challengeMessage n' = challengeMessage n"
    "authenticateMessage n' = authenticateMessage n" "mic n' = mic n"
  using assms unfolding derivesOnly_def
  by (cases n, cases n', simp)+

lemma V2_fetchResponseKeys_derivesOnly [simp]: "derivesOnly n (snd (V2_fetchResponseKeys P n))"
  by (simp add: V2_fetchResponseKeys_def derivesOnly_def Let_def)

lemma V2_computeExpectedResponses_derivesOnly [simp]:
  "derivesOnly n (snd (V2_computeExpectedResponses P ts av n))"
  by (simp add: V2_computeExpectedResponses_def derivesOnly_def Let_def)

lemma V1_fetchResponseKeys_derivesOnly [simp]: "derivesOnly n (snd (V1_fetchResponseKeys P n))"
  by (simp add: V1_fetchResponseKeys_def derivesOnly_def Let_def split_def)

lemma V1_computeExpectedResponses_derivesOnly [simp]:
  "derivesOnly n (snd (V1_computeExpectedResponses P n))"
  by (simp add: V1_computeExpectedResponses_def derivesOnly_def Let_def split_def)

lemma V1_computeSessionBaseKey_derivesOnly [simp]:
  "derivesOnly n (snd (V1_computeSessionBaseKey P n))"
  by (simp add: V1_computeSessionBaseKey_def derivesOnly_def)

lemma V1_computeKeyExchangeKey_derivesOnly [simp]:
  "derivesOnly n (snd (V1_computeKeyExchangeKey P n))"
  by (simp add: V1_computeKeyExchangeKey_def derivesOnly_def Let_def split_def)

text \<open>The session as the first lines of \<^verbatim>\<open>ProcessAuthenticateMessage\<close> load it from the message.\<close>

lemma V2Server_untilComparison_derivesOnly:
  "derivesOnly
     (n\<lparr>authenticateMessage := Some am, NegotiateFlags := am_NegotiateFlags m,
        clientChallenge := am_ClientChallenge m,
        encryptedRandomSessionKey := am_EncryptedRandomSessionKey m,
        user := am_UserName m, userDomain := am_DomainName m,
        workstation := am_Workstation m\<rparr>)
     (snd (V2Server_untilComparison P n am m))"
proof -
  let ?n0 = "n\<lparr>authenticateMessage := Some am, NegotiateFlags := am_NegotiateFlags m,
        clientChallenge := am_ClientChallenge m,
        encryptedRandomSessionKey := am_EncryptedRandomSessionKey m,
        user := am_UserName m, userDomain := am_DomainName m,
        workstation := am_Workstation m\<rparr>"
  have a: "derivesOnly ?n0 (snd (V2_fetchResponseKeys P ?n0))"
    by (rule V2_fetchResponseKeys_derivesOnly)
  have b: "derivesOnly ?n0 (snd (V2_computeExpectedResponses P ts av (snd (V2_fetchResponseKeys P ?n0))))"
    for ts av
    by (rule derivesOnly_trans [OF a V2_computeExpectedResponses_derivesOnly])
  show ?thesis
    unfolding V2Server_untilComparison_def
    by (simp add: Let_def split_def a b split: option.split)
qed

lemma V1Server_untilComparison_derivesOnly:
  "derivesOnly
     (n\<lparr>authenticateMessage := Some am, NegotiateFlags := am_NegotiateFlags m,
        clientChallenge := am_ClientChallenge m,
        encryptedRandomSessionKey := am_EncryptedRandomSessionKey m,
        user := am_UserName m, userDomain := am_DomainName m\<rparr>)
     (snd (V1Server_untilComparison P n am m))"
proof -
  let ?n0 = "n\<lparr>authenticateMessage := Some am, NegotiateFlags := am_NegotiateFlags m,
        clientChallenge := am_ClientChallenge m,
        encryptedRandomSessionKey := am_EncryptedRandomSessionKey m,
        user := am_UserName m, userDomain := am_DomainName m\<rparr>"
  let ?n1 = "snd (V1_fetchResponseKeys P ?n0)"
  let ?n2 = "snd (V1_computeExpectedResponses P ?n1)"
  let ?n3 = "snd (V1_computeSessionBaseKey P ?n2)"
  let ?n4 = "snd (V1_computeKeyExchangeKey P ?n3)"
  have a: "derivesOnly ?n0 ?n1"
    by (rule V1_fetchResponseKeys_derivesOnly)
  have b: "derivesOnly ?n0 ?n2"
    by (rule derivesOnly_trans [OF a V1_computeExpectedResponses_derivesOnly])
  have c: "derivesOnly ?n0 ?n3"
    by (rule derivesOnly_trans [OF b V1_computeSessionBaseKey_derivesOnly])
  have d: "derivesOnly ?n0 ?n4"
    by (rule derivesOnly_trans [OF c V1_computeKeyExchangeKey_derivesOnly])
  show ?thesis
    unfolding V1Server_untilComparison_def
    by (simp add: Let_def split_def a b c d)
qed

lemma V2Server_ProcessAuthenticateMessage_split:
  assumes "h am = Some m"
  shows "V2Server_ProcessAuthenticateMessage P n am h =
     (case V2Server_untilComparison P n am m of (e, n1) \<Rightarrow>
        if e \<noteq> None then (e, n1, h)
        else if am_NtChallengeResponseFields m \<noteq> ntChallengeResponse n1
                \<and> am_LmChallengeResponse m \<noteq> lmChallengeResponse n1
        then (Some CouldNotAuthenticate, n1, h)
        else V2Server_afterComparison P n1 am m h)"
  using assms
  unfolding V2Server_ProcessAuthenticateMessage_def V2Server_untilComparison_def
    V2Server_afterComparison_def
  apply (simp only: Let_def split_def option.case fst_conv snd_conv)
  apply (simp only: V2_fetchResponseKeys_def Let_def fst_conv snd_conv simp_thms if_False)
  apply (cases "am_NtlmV2Response m")
   apply (simp_all only: option.case fst_conv snd_conv option.distinct simp_thms if_True if_False)
  done

lemma V1Server_ProcessAuthenticateMessage_split:
  assumes "h am = Some m"
  shows "V1Server_ProcessAuthenticateMessage P n am h =
     (case V1Server_untilComparison P n am m of (e, n1) \<Rightarrow>
        if e \<noteq> None then (e, n1, h)
        else if am_NtChallengeResponseFields m \<noteq> ntChallengeResponse n1
                \<and> (am_LmChallengeResponse m \<noteq> lmChallengeResponse n1
                     \<or> IsSet NTLMSSP_NEGOTIATE_EXTENDED_SESSIONSECURITY (NegotiateFlags n1))
        then (Some CouldNotAuthenticate, n1, h)
        else V1Server_afterComparison P n1 am m h)"
proof -
  let ?n0 = "n\<lparr>authenticateMessage := Some am, NegotiateFlags := am_NegotiateFlags m,
        clientChallenge := am_ClientChallenge m,
        encryptedRandomSessionKey := am_EncryptedRandomSessionKey m,
        user := am_UserName m, userDomain := am_DomainName m\<rparr>"
  obtain e1 n1 where f1: "V1_fetchResponseKeys P ?n0 = (e1, n1)" by (cases "V1_fetchResponseKeys P ?n0")
  obtain e2 n2 where f2: "V1_computeExpectedResponses P n1 = (e2, n2)" by (cases "V1_computeExpectedResponses P n1")
  obtain e3 n3 where f3: "V1_computeSessionBaseKey P n2 = (e3, n3)" by (cases "V1_computeSessionBaseKey P n2")
  obtain e4 n4 where f4: "V1_computeKeyExchangeKey P n3 = (e4, n4)" by (cases "V1_computeKeyExchangeKey P n3")
  show ?thesis
    using assms
    unfolding V1Server_ProcessAuthenticateMessage_def V1Server_untilComparison_def
      V1Server_afterComparison_def
    apply (simp only: Let_def option.case f1 f2 f3 f4 prod.case)
    apply (cases e1; cases e2; cases e3; cases e4)
    apply (simp_all only: option.distinct simp_thms if_True if_False prod.case f1 f2 f3 f4 split_def fst_conv snd_conv)
    done
qed


lemma V2Server_untilComparison_frame:
  "keysAndHandlesKept n (snd (V2Server_untilComparison P n am m))
   \<and> loadedFromMessage (snd (V2Server_untilComparison P n am m)) am m
   \<and> workstation (snd (V2Server_untilComparison P n am m)) = am_Workstation m
   \<and> password (snd (V2Server_untilComparison P n am m)) = password n
   \<and> serverChallenge (snd (V2Server_untilComparison P n am m)) = serverChallenge n"
  using derivesOnly_fields [OF V2Server_untilComparison_derivesOnly [where n = n and am = am and m = m and P = P]]
  by (simp add: keysAndHandlesKept_def loadedFromMessage_def)

lemma V1Server_untilComparison_frame:
  "keysAndHandlesKept n (snd (V1Server_untilComparison P n am m))
   \<and> loadedFromMessage (snd (V1Server_untilComparison P n am m)) am m
   \<and> workstation (snd (V1Server_untilComparison P n am m)) = workstation n
   \<and> password (snd (V1Server_untilComparison P n am m)) = password n
   \<and> serverChallenge (snd (V1Server_untilComparison P n am m)) = serverChallenge n"
  using derivesOnly_fields [OF V1Server_untilComparison_derivesOnly [where n = n and am = am and m = m and P = P]]
  by (simp add: keysAndHandlesKept_def loadedFromMessage_def)

lemma V2_computeKeyExchangeKey_fst [simp]: "fst (V2_computeKeyExchangeKey n) = None"
  by (simp add: V2_computeKeyExchangeKey_def)

lemma V2_computeKeyExchangeKey_mic [simp]: "mic (snd (V2_computeKeyExchangeKey n)) = mic n"
  by (simp add: V2_computeKeyExchangeKey_def)

lemma V2_calculateKeys_fst [simp]: "fst (V2_calculateKeys P r n) = None"
  by (simp add: V2_calculateKeys_def)

lemma V2_calculateKeys_mic [simp]: "mic (snd (V2_calculateKeys P r n)) = mic n"
  by (simp add: V2_calculateKeys_def)

lemma V1_calculateKeys_fst [simp]: "fst (V1_calculateKeys P r n) = None"
  by (simp add: V1_calculateKeys_def)

lemma V1_calculateKeys_mic [simp]: "mic (snd (V1_calculateKeys P r n)) = mic n"
  by (simp add: V1_calculateKeys_def)

lemma V2Server_computeExportedSessionKey_not_auth [simp]:
  "fst (V2Server_computeExportedSessionKey P n) \<noteq> Some CouldNotAuthenticate"
  by (simp add: V2Server_computeExportedSessionKey_def split_def Let_def)

lemma V2Server_computeExportedSessionKey_mic [simp]:
  "mic (snd (V2Server_computeExportedSessionKey P n)) = mic n"
  by (simp add: V2Server_computeExportedSessionKey_def split_def Let_def)

lemma V1Server_computeExportedSessionKey_not_auth [simp]:
  "fst (V1Server_computeExportedSessionKey P n) \<noteq> Some CouldNotAuthenticate"
  by (simp add: V1Server_computeExportedSessionKey_def split_def Let_def)

lemma V1Server_computeExportedSessionKey_mic [simp]:
  "mic (snd (V1Server_computeExportedSessionKey P n)) = mic n"
  by (simp add: V1Server_computeExportedSessionKey_def split_def Let_def)

lemma V2Server_afterComparison_not_auth:
  "fst (V2Server_afterComparison P n am m h) \<noteq> Some CouldNotAuthenticate"
  unfolding V2Server_afterComparison_def
  by (simp add: Let_def split_def)

lemma V1Server_afterComparison_not_auth:
  "fst (V1Server_afterComparison P n am m h) \<noteq> Some CouldNotAuthenticate"
  unfolding V1Server_afterComparison_def
  by (simp add: Let_def split_def)

lemma V2Server_afterComparison_mic:
  "mic (fst (snd (V2Server_afterComparison P n am m h))) = am_Mic m
   \<and> (snd (snd (V2Server_afterComparison P n am m h)) = h(am \<mapsto> m\<lparr>am_Mic := zeroBytes 16\<rparr>)
      \<or> am_Version m = None
        \<and> snd (snd (V2Server_afterComparison P n am m h))
            = h(am \<mapsto> m\<lparr>am_Mic := zeroBytes 16, am_Version := Some defaultVersion\<rparr>))"
  unfolding V2Server_afterComparison_def
  by (cases "am_Version m") (simp_all add: Let_def split_def)

lemma V1Server_afterComparison_mic:
  "mic (fst (snd (V1Server_afterComparison P n am m h))) = am_Mic m
   \<and> (snd (snd (V1Server_afterComparison P n am m h)) = h(am \<mapsto> m\<lparr>am_Mic := zeroBytes 16\<rparr>)
      \<or> am_Version m = None
        \<and> snd (snd (V1Server_afterComparison P n am m h))
            = h(am \<mapsto> m\<lparr>am_Mic := zeroBytes 16, am_Version := Some defaultVersion\<rparr>))"
  unfolding V1Server_afterComparison_def
  by (cases "am_Version m") (simp_all add: Let_def split_def)


text \<open>
  C3. In the server's \<^verbatim>\<open>ProcessAuthenticateMessage\<close>, once the derivations before the
  comparison have returned no error: v2 returns the authentication-failure error exactly
  when the message's NT response differs from the expected one and its LM response differs
  from the expected one too (so an equal LM response rescues an unequal NT response); v1
  returns it exactly when the NT response differs and either the LM response differs or the
  extended-session-security flag of the message is set (so under that flag an equal LM
  response does not rescue it). The expected responses are those the session holds after
  the steps before the comparison.
\<close>

theorem ProcessAuthenticateMessage_response_comparison:
  "h am = Some m \<longrightarrow>
     (let r2 = V2Server_untilComparison P n am m; n2 = snd r2;
          r1 = V1Server_untilComparison P n am m; n1 = snd r1
      in (fst r2 = None \<longrightarrow>
            (fst (V2Server_ProcessAuthenticateMessage P n am h) = Some CouldNotAuthenticate)
              = (am_NtChallengeResponseFields m \<noteq> ntChallengeResponse n2
                 \<and> am_LmChallengeResponse m \<noteq> lmChallengeResponse n2))
       \<and> (fst r1 = None \<longrightarrow>
            (fst (V1Server_ProcessAuthenticateMessage P n am h) = Some CouldNotAuthenticate)
              = (am_NtChallengeResponseFields m \<noteq> ntChallengeResponse n1
                 \<and> (am_LmChallengeResponse m \<noteq> lmChallengeResponse n1
                      \<or> IsSet NTLMSSP_NEGOTIATE_EXTENDED_SESSIONSECURITY (am_NegotiateFlags m)))))"
proof
  assume hm: "h am = Some m"
  have f1: "NegotiateFlags (snd (V1Server_untilComparison P n am m)) = am_NegotiateFlags m"
    using V1Server_untilComparison_frame [where n = n and am = am and m = m and P = P]
    by (simp add: loadedFromMessage_def)
  have v2: "(fst (V2Server_ProcessAuthenticateMessage P n am h) = Some CouldNotAuthenticate)
              = (am_NtChallengeResponseFields m
                   \<noteq> ntChallengeResponse (snd (V2Server_untilComparison P n am m))
                 \<and> am_LmChallengeResponse m
                   \<noteq> lmChallengeResponse (snd (V2Server_untilComparison P n am m)))"
    if "fst (V2Server_untilComparison P n am m) = None"
    using that
    by (simp add: V2Server_ProcessAuthenticateMessage_split [where h = h and am = am and m = m, OF hm]
        split_def V2Server_afterComparison_not_auth)
  have v1: "(fst (V1Server_ProcessAuthenticateMessage P n am h) = Some CouldNotAuthenticate)
              = (am_NtChallengeResponseFields m
                   \<noteq> ntChallengeResponse (snd (V1Server_untilComparison P n am m))
                 \<and> (am_LmChallengeResponse m
                      \<noteq> lmChallengeResponse (snd (V1Server_untilComparison P n am m))
                    \<or> IsSet NTLMSSP_NEGOTIATE_EXTENDED_SESSIONSECURITY (am_NegotiateFlags m)))"
    if "fst (V1Server_untilComparison P n am m) = None"
    using that
    by (simp add: V1Server_ProcessAuthenticateMessage_split [where h = h and am = am and m = m, OF hm]
        split_def f1 V1Server_afterComparison_not_auth)
  from v1 v2 show "let r2 = V2Server_untilComparison P n am m; n2 = snd r2;
          r1 = V1Server_untilComparison P n am m; n1 = snd r1
      in (fst r2 = None \<longrightarrow>
            (fst (V2Server_ProcessAuthenticateMessage P n am h) = Some CouldNotAuthenticate)
              = (am_NtChallengeResponseFields m \<noteq> ntChallengeResponse n2
                 \<and> am_LmChallengeResponse m \<noteq> lmChallengeResponse n2))
       \<and> (fst r1 = None \<longrightarrow>
            (fst (V1Server_ProcessAuthenticateMessage P n am h) = Some CouldNotAuthenticate)
              = (am_NtChallengeResponseFields m \<noteq> ntChallengeResponse n1
                 \<and> (am_LmChallengeResponse m \<noteq> lmChallengeResponse n1
                      \<or> IsSet NTLMSSP_NEGOTIATE_EXTENDED_SESSIONSECURITY (am_NegotiateFlags m))))"
    by (simp add: Let_def)
qed

theorem ProcessAuthenticateMessage_response_comparison_witness:
  "[0 \<mapsto> lmOnlyMessage] (0 :: addr) = Some lmOnlyMessage
   \<and> fst (V1Server_untilComparison toyPrims sampleSession 0 lmOnlyMessage) = None
   \<and> am_LmChallengeResponse lmOnlyMessage
       = lmChallengeResponse (snd (V1Server_untilComparison toyPrims sampleSession 0 lmOnlyMessage))
   \<and> am_NtChallengeResponseFields lmOnlyMessage
       \<noteq> ntChallengeResponse (snd (V1Server_untilComparison toyPrims sampleSession 0 lmOnlyMessage))
   \<and> IsSet NTLMSSP_NEGOTIATE_EXTENDED_SESSIONSECURITY (am_NegotiateFlags lmOnlyMessage)
   \<and> fst (V1Server_ProcessAuthenticateMessage toyPrims sampleSession 0 [0 \<mapsto> lmOnlyMessage])
       = Some CouldNotAuthenticate
   \<and> fst (V2Server_untilComparison toyPrims sampleSession 0 lmOnlyMessage) = None
   \<and> am_LmChallengeResponse lmOnlyMessage
       \<noteq> lmChallengeResponse (snd (V2Server_untilComparison toyPrims sampleSession 0 lmOnlyMessage))
   \<and> am_NtChallengeResponseFields lmOnlyMessage
       \<noteq> ntChallengeResponse (snd (V2Server_untilComparison toyPrims sampleSession 0 lmOnlyMessage))
   \<and> fst (V2Server_ProcessAuthenticateMessage toyPrims sampleSession 0 [0 \<mapsto> lmOnlyMessage])
       = Some CouldNotAuthenticate"
proof -
  have a: "fst (V1Server_untilComparison toyPrims sampleSession 0 lmOnlyMessage) = None"
    by code_simp
  have b: "am_LmChallengeResponse lmOnlyMessage
       = lmChallengeResponse (snd (V1Server_untilComparison toyPrims sampleSession 0 lmOnlyMessage))"
    by code_simp
  have c: "am_NtChallengeResponseFields lmOnlyMessage
       \<noteq> ntChallengeResponse (snd (V1Server_untilComparison toyPrims sampleSession 0 lmOnlyMessage))"
    by code_simp
  have d: "IsSet NTLMSSP_NEGOTIATE_EXTENDED_SESSIONSECURITY (am_NegotiateFlags lmOnlyMessage)"
    by code_simp
  have e: "fst (V2Server_untilComparison toyPrims sampleSession 0 lmOnlyMessage) = None"
    by code_simp
  have f: "am_LmChallengeResponse lmOnlyMessage
       \<noteq> lmChallengeResponse (snd (V2Server_untilComparison toyPrims sampleSession 0 lmOnlyMessage))"
    by code_simp
  have g: "am_NtChallengeResponseFields lmOnlyMessage
       \<noteq> ntChallengeResponse (snd (V2Server_untilComparison toyPrims sampleSession 0 lmOnlyMessage))"
    by code_simp
  have hp: "[0 \<mapsto> lmOnlyMessage] (0 :: addr) = Some lmOnlyMessage"
    by simp
  show ?thesis
    using a b c d e f g hp
      ProcessAuthenticateMessage_response_comparison [where h = "[0 \<mapsto> lmOnlyMessage]"
        and am = 0 and m = lmOnlyMessage and P = toyPrims and n = sampleSession]
    by (simp add: Let_def)
qed

text \<open>
  Whatever the primitives are, the v2 server rejects a message whose NT and LM responses
  are empty (the expected NT response starts with \<open>01 01\<close>, the expected LM response ends
  with the client challenge), and by then it has taken over the message's user name and
  flags.
\<close>

lemma V2Server_rejects_empty_responses:
  assumes "h am = Some m" and "am_NtlmV2Response m = Some r"
    and "am_NtChallengeResponseFields m = []" and "am_LmChallengeResponse m = []"
    and "am_ClientChallenge m \<noteq> []"
  shows "fst (V2Server_ProcessAuthenticateMessage P n am h) = Some CouldNotAuthenticate"
    and "user (fst (snd (V2Server_ProcessAuthenticateMessage P n am h))) = am_UserName m"
    and "NegotiateFlags (fst (snd (V2Server_ProcessAuthenticateMessage P n am h))) = am_NegotiateFlags m"
proof -
  have e: "fst (V2Server_untilComparison P n am m) = None"
    using assms(2)
    by (simp add: V2Server_untilComparison_def V2_fetchResponseKeys_def
        V2_computeExpectedResponses_def Let_def)
  have nt: "ntChallengeResponse (snd (V2Server_untilComparison P n am m)) \<noteq> []"
    using assms(2)
    by (simp add: V2Server_untilComparison_def V2_fetchResponseKeys_def
        V2_computeExpectedResponses_def Let_def concat_bytes_def)
  have lm: "lmChallengeResponse (snd (V2Server_untilComparison P n am m)) \<noteq> []"
    using assms(2) assms(5)
    by (simp add: V2Server_untilComparison_def V2_fetchResponseKeys_def
        V2_computeExpectedResponses_def Let_def concat_bytes_def)
  have r: "V2Server_ProcessAuthenticateMessage P n am h
             = (Some CouldNotAuthenticate, snd (V2Server_untilComparison P n am m), h)"
    using e nt lm assms(3) assms(4)
    by (simp add: V2Server_ProcessAuthenticateMessage_split [where h = h and am = am and m = m, OF assms(1)]
        split_def)
  show "fst (V2Server_ProcessAuthenticateMessage P n am h) = Some CouldNotAuthenticate"
    by (simp add: r)
  show "user (fst (snd (V2Server_ProcessAuthenticateMessage P n am h))) = am_UserName m"
    using V2Server_untilComparison_frame [where n = n and am = am and m = m and P = P]
    by (simp add: r loadedFromMessage_def)
  show "NegotiateFlags (fst (snd (V2Server_ProcessAuthenticateMessage P n am h))) = am_NegotiateFlags m"
    using V2Server_untilComparison_frame [where n = n and am = am and m = m and P = P]
    by (simp add: r loadedFromMessage_def)
qed





text \<open>
  C8. In the server's \<^verbatim>\<open>ProcessAuthenticateMessage\<close> (v1 and v2), when the derivations
  before the comparison returned no error and the comparison lets the message through, the
  session's \<open>mic\<close> is the \<open>Mic\<close> the message carried, and the message the pointer leads to
  afterwards is the original with \<open>Mic\<close> set to 16 zero bytes and nothing else changed,
  except that a nil \<open>Version\<close> may have been replaced by the default by the later step that
  does so. Every other address of the heap is untouched.
\<close>

theorem ProcessAuthenticateMessage_saves_and_zeroes_mic:
  "h am = Some m \<longrightarrow>
     (let r2 = V2Server_untilComparison P n am m; n2 = snd r2;
          out2 = V2Server_ProcessAuthenticateMessage P n am h;
          r1 = V1Server_untilComparison P n am m; n1 = snd r1;
          out1 = V1Server_ProcessAuthenticateMessage P n am h
      in (fst r2 = None
          \<and> (am_NtChallengeResponseFields m = ntChallengeResponse n2
               \<or> am_LmChallengeResponse m = lmChallengeResponse n2) \<longrightarrow>
            mic (fst (snd out2)) = am_Mic m
            \<and> (snd (snd out2) = h(am \<mapsto> m\<lparr>am_Mic := zeroBytes 16\<rparr>)
               \<or> am_Version m = None
                 \<and> snd (snd out2)
                     = h(am \<mapsto> m\<lparr>am_Mic := zeroBytes 16, am_Version := Some defaultVersion\<rparr>)))
       \<and> (fst r1 = None
          \<and> (am_NtChallengeResponseFields m = ntChallengeResponse n1
               \<or> am_LmChallengeResponse m = lmChallengeResponse n1
                 \<and> \<not> IsSet NTLMSSP_NEGOTIATE_EXTENDED_SESSIONSECURITY (am_NegotiateFlags m)) \<longrightarrow>
            mic (fst (snd out1)) = am_Mic m
            \<and> (snd (snd out1) = h(am \<mapsto> m\<lparr>am_Mic := zeroBytes 16\<rparr>)
               \<or> am_Version m = None
                 \<and> snd (snd out1)
                     = h(am \<mapsto> m\<lparr>am_Mic := zeroBytes 16, am_Version := Some defaultVersion\<rparr>))))"
proof
  assume hm: "h am = Some m"
  have f1: "NegotiateFlags (snd (V1Server_untilComparison P n am m)) = am_NegotiateFlags m"
    using V1Server_untilComparison_frame [where n = n and am = am and m = m and P = P]
    by (simp add: loadedFromMessage_def)
  have v2: "V2Server_ProcessAuthenticateMessage P n am h
              = V2Server_afterComparison P (snd (V2Server_untilComparison P n am m)) am m h"
    if "fst (V2Server_untilComparison P n am m) = None"
      and "am_NtChallengeResponseFields m = ntChallengeResponse (snd (V2Server_untilComparison P n am m))
           \<or> am_LmChallengeResponse m = lmChallengeResponse (snd (V2Server_untilComparison P n am m))"
    using that
    by (auto simp add: V2Server_ProcessAuthenticateMessage_split [where h = h and am = am and m = m, OF hm]
        split_def)
  have v1: "V1Server_ProcessAuthenticateMessage P n am h
              = V1Server_afterComparison P (snd (V1Server_untilComparison P n am m)) am m h"
    if "fst (V1Server_untilComparison P n am m) = None"
      and "am_NtChallengeResponseFields m = ntChallengeResponse (snd (V1Server_untilComparison P n am m))
           \<or> am_LmChallengeResponse m = lmChallengeResponse (snd (V1Server_untilComparison P n am m))
             \<and> \<not> IsSet NTLMSSP_NEGOTIATE_EXTENDED_SESSIONSECURITY (am_NegotiateFlags m)"
    using that
    by (auto simp add: V1Server_ProcessAuthenticateMessage_split [where h = h and am = am and m = m, OF hm]
        split_def f1)
  show "let r2 = V2Server_untilComparison P n am m; n2 = snd r2;
          out2 = V2Server_ProcessAuthenticateMessage P n am h;
          r1 = V1Server_untilComparison P n am m; n1 = snd r1;
          out1 = V1Server_ProcessAuthenticateMessage P n am h
      in (fst r2 = None
          \<and> (am_NtChallengeResponseFields m = ntChallengeResponse n2
               \<or> am_LmChallengeResponse m = lmChallengeResponse n2) \<longrightarrow>
            mic (fst (snd out2)) = am_Mic m
            \<and> (snd (snd out2) = h(am \<mapsto> m\<lparr>am_Mic := zeroBytes 16\<rparr>)
               \<or> am_Version m = None
                 \<and> snd (snd out2)
                     = h(am \<mapsto> m\<lparr>am_Mic := zeroBytes 16, am_Version := Some defaultVersion\<rparr>)))
       \<and> (fst r1 = None
          \<and> (am_NtChallengeResponseFields m = ntChallengeResponse n1
               \<or> am_LmChallengeResponse m = lmChallengeResponse n1
                 \<and> \<not> IsSet NTLMSSP_NEGOTIATE_EXTENDED_SESSIONSECURITY (am_NegotiateFlags m)) \<longrightarrow>
            mic (fst (snd out1)) = am_Mic m
            \<and> (snd (snd out1) = h(am \<mapsto> m\<lparr>am_Mic := zeroBytes 16\<rparr>)
               \<or> am_Version m = None
                 \<and> snd (snd out1)
                     = h(am \<mapsto> m\<lparr>am_Mic := zeroBytes 16, am_Version := Some defaultVersion\<rparr>)))"
    unfolding Let_def
  proof (intro conjI impI)
    assume a: "fst (V2Server_untilComparison P n am m) = None
          \<and> (am_NtChallengeResponseFields m = ntChallengeResponse (snd (V2Server_untilComparison P n am m))
               \<or> am_LmChallengeResponse m = lmChallengeResponse (snd (V2Server_untilComparison P n am m)))"
    from a show "mic (fst (snd (V2Server_ProcessAuthenticateMessage P n am h))) = am_Mic m"
      using v2 V2Server_afterComparison_mic by metis
    from a show "snd (snd (V2Server_ProcessAuthenticateMessage P n am h)) = h(am \<mapsto> m\<lparr>am_Mic := zeroBytes 16\<rparr>)
               \<or> am_Version m = None
                 \<and> snd (snd (V2Server_ProcessAuthenticateMessage P n am h))
                     = h(am \<mapsto> m\<lparr>am_Mic := zeroBytes 16, am_Version := Some defaultVersion\<rparr>)"
      using v2 V2Server_afterComparison_mic by metis
  next
    assume a: "fst (V1Server_untilComparison P n am m) = None
          \<and> (am_NtChallengeResponseFields m = ntChallengeResponse (snd (V1Server_untilComparison P n am m))
               \<or> am_LmChallengeResponse m = lmChallengeResponse (snd (V1Server_untilComparison P n am m))
                 \<and> \<not> IsSet NTLMSSP_NEGOTIATE_EXTENDED_SESSIONSECURITY (am_NegotiateFlags m))"
    from a show "mic (fst (snd (V1Server_ProcessAuthenticateMessage P n am h))) = am_Mic m"
      using v1 V1Server_afterComparison_mic by metis
    from a show "snd (snd (V1Server_ProcessAuthenticateMessage P n am h)) = h(am \<mapsto> m\<lparr>am_Mic := zeroBytes 16\<rparr>)
               \<or> am_Version m = None
                 \<and> snd (snd (V1Server_ProcessAuthenticateMessage P n am h))
                     = h(am \<mapsto> m\<lparr>am_Mic := zeroBytes 16, am_Version := Some defaultVersion\<rparr>)"
      using v1 V1Server_afterComparison_mic by metis
  qed
qed

theorem ProcessAuthenticateMessage_saves_and_zeroes_mic_witness:
  "[0 \<mapsto> goodMessageV2] (0 :: addr) = Some goodMessageV2
   \<and> fst (V2Server_untilComparison toyPrims sampleSession 0 goodMessageV2) = None
   \<and> am_NtChallengeResponseFields goodMessageV2
       = ntChallengeResponse (snd (V2Server_untilComparison toyPrims sampleSession 0 goodMessageV2))
   \<and> mic (fst (snd (V2Server_ProcessAuthenticateMessage toyPrims sampleSession 0 [0 \<mapsto> goodMessageV2])))
       = am_Mic goodMessageV2
   \<and> am_Mic goodMessageV2 = replicate 16 0x77
   \<and> fst (V2Server_ProcessAuthenticateMessage toyPrims sampleSession 0 [0 \<mapsto> goodMessageV2]) = None
   \<and> map_option am_Mic
         (snd (snd (V2Server_ProcessAuthenticateMessage toyPrims sampleSession 0 [0 \<mapsto> goodMessageV2])) 0)
       = Some (replicate 16 0)
   \<and> [0 \<mapsto> goodMessageV1] (0 :: addr) = Some goodMessageV1
   \<and> fst (V1Server_untilComparison toyPrims sampleSession 0 goodMessageV1) = None
   \<and> am_NtChallengeResponseFields goodMessageV1
       = ntChallengeResponse (snd (V1Server_untilComparison toyPrims sampleSession 0 goodMessageV1))
   \<and> mic (fst (snd (V1Server_ProcessAuthenticateMessage toyPrims sampleSession 0 [0 \<mapsto> goodMessageV1])))
       = am_Mic goodMessageV1
   \<and> fst (V1Server_ProcessAuthenticateMessage toyPrims sampleSession 0 [0 \<mapsto> goodMessageV1]) = None
   \<and> map_option am_Mic
         (snd (snd (V1Server_ProcessAuthenticateMessage toyPrims sampleSession 0 [0 \<mapsto> goodMessageV1])) 0)
       = Some (replicate 16 0)"
proof -
  have hp2: "[0 \<mapsto> goodMessageV2] (0 :: addr) = Some goodMessageV2" by simp
  have a2: "fst (V2Server_untilComparison toyPrims sampleSession 0 goodMessageV2) = None"
    by code_simp
  have b2: "am_NtChallengeResponseFields goodMessageV2
       = ntChallengeResponse (snd (V2Server_untilComparison toyPrims sampleSession 0 goodMessageV2))"
    by code_simp
  have c2: "am_Mic goodMessageV2 = replicate 16 0x77" by code_simp
  have d2: "fst (V2Server_ProcessAuthenticateMessage toyPrims sampleSession 0 [0 \<mapsto> goodMessageV2]) = None"
    by code_simp
  have e2: "map_option am_Mic
         (snd (snd (V2Server_ProcessAuthenticateMessage toyPrims sampleSession 0 [0 \<mapsto> goodMessageV2])) 0)
       = Some (replicate 16 0)"
    by code_simp
  have hp1: "[0 \<mapsto> goodMessageV1] (0 :: addr) = Some goodMessageV1" by simp
  have a1: "fst (V1Server_untilComparison toyPrims sampleSession 0 goodMessageV1) = None"
    by code_simp
  have b1: "am_NtChallengeResponseFields goodMessageV1
       = ntChallengeResponse (snd (V1Server_untilComparison toyPrims sampleSession 0 goodMessageV1))"
    by code_simp
  have d1: "fst (V1Server_ProcessAuthenticateMessage toyPrims sampleSession 0 [0 \<mapsto> goodMessageV1]) = None"
    by code_simp
  have e1: "map_option am_Mic
         (snd (snd (V1Server_ProcessAuthenticateMessage toyPrims sampleSession 0 [0 \<mapsto> goodMessageV1])) 0)
       = Some (replicate 16 0)"
    by code_simp
  note t2 = ProcessAuthenticateMessage_saves_and_zeroes_mic [where h = "[0 \<mapsto> goodMessageV2]"
        and am = 0 and m = goodMessageV2 and P = toyPrims and n = sampleSession, unfolded Let_def,
        THEN mp, OF hp2, THEN conjunct1, THEN mp, OF conjI [OF a2 disjI1 [OF b2]], THEN conjunct1]
  note t1 = ProcessAuthenticateMessage_saves_and_zeroes_mic [where h = "[0 \<mapsto> goodMessageV1]"
        and am = 0 and m = goodMessageV1 and P = toyPrims and n = sampleSession, unfolded Let_def,
        THEN mp, OF hp1, THEN conjunct2, THEN mp, OF conjI [OF a1 disjI1 [OF b1]], THEN conjunct1]
  from hp2 a2 b2 c2 d2 e2 hp1 a1 b1 d1 e1 t2 t1 show ?thesis by blast
qed

section \<open>Properties: the exported session key\<close>

text \<open>
  What \<^verbatim>\<open>computeEncryptedSessionKey\<close> (client) and \<^verbatim>\<open>computeExportedSessionKey\<close> (server)
  assign, for every session and all primitives. With the KEY_EXCH flag the client takes 16
  random bytes as exported session key and sends them encrypted under the key-exchange key,
  and the server decrypts what it received. Without the flag the server takes the
  key-exchange key as exported session key; the client copies the key-exchange key into
  \<open>encryptedRandomSessionKey\<close> and assigns nothing else.
\<close>

lemma Client_computeEncryptedSessionKey_with_KEY_EXCH:
  assumes "IsSet NTLMSSP_NEGOTIATE_KEY_EXCH (NegotiateFlags n)"
  shows "exportedSessionKey (snd (V2Client_computeEncryptedSessionKey P rnd n)) = rnd 16"
    and "encryptedRandomSessionKey (snd (V2Client_computeEncryptedSessionKey P rnd n))
           = fst (rc4K P (keyExchangeKey n) (rnd 16))"
    and "fst (V2Client_computeEncryptedSessionKey P rnd n)
           = lift_err (snd (rc4K P (keyExchangeKey n) (rnd 16)))"
    and "exportedSessionKey (snd (V1Client_computeEncryptedSessionKey P rnd n)) = rnd 16"
    and "encryptedRandomSessionKey (snd (V1Client_computeEncryptedSessionKey P rnd n))
           = fst (rc4K P (keyExchangeKey n) (rnd 16))"
    and "fst (V1Client_computeEncryptedSessionKey P rnd n)
           = lift_err (snd (rc4K P (keyExchangeKey n) (rnd 16)))"
  using assms
  by (simp_all add: V2Client_computeEncryptedSessionKey_def V1Client_computeEncryptedSessionKey_def
      Let_def split_def lift_err_def)

lemma Client_computeEncryptedSessionKey_without_KEY_EXCH:
  assumes "\<not> IsSet NTLMSSP_NEGOTIATE_KEY_EXCH (NegotiateFlags n)"
  shows "V2Client_computeEncryptedSessionKey P rnd n
           = (None, n\<lparr>encryptedRandomSessionKey := keyExchangeKey n\<rparr>)"
    and "V1Client_computeEncryptedSessionKey P rnd n
           = (None, n\<lparr>encryptedRandomSessionKey := keyExchangeKey n\<rparr>)"
  using assms
  by (simp_all add: V2Client_computeEncryptedSessionKey_def V1Client_computeEncryptedSessionKey_def)

lemma Server_computeExportedSessionKey_value:
  "exportedSessionKey (snd (V2Server_computeExportedSessionKey P n))
     = (if IsSet NTLMSSP_NEGOTIATE_KEY_EXCH (NegotiateFlags n)
        then fst (rc4K P (keyExchangeKey n) (encryptedRandomSessionKey n))
        else keyExchangeKey n)"
  "exportedSessionKey (snd (V1Server_computeExportedSessionKey P n))
     = (if IsSet NTLMSSP_NEGOTIATE_KEY_EXCH (NegotiateFlags n)
        then fst (rc4K P (keyExchangeKey n) (encryptedRandomSessionKey n))
        else keyExchangeKey n)"
  by (simp_all add: V2Server_computeExportedSessionKey_def V1Server_computeExportedSessionKey_def
      Let_def split_def)

text \<open>
  What the missing assignment does next: \<^verbatim>\<open>calculateKeys\<close> derives the signing and sealing
  keys from the exported session key, so without KEY_EXCH the client derives them from the
  key it held before and the server from the key-exchange key.
\<close>

lemma directional_keys_without_KEY_EXCH:
  assumes "\<not> IsSet NTLMSSP_NEGOTIATE_KEY_EXCH (NegotiateFlags n)"
  shows "ClientSigningKey (snd (V2_calculateKeys P rev1
            (snd (V2Client_computeEncryptedSessionKey P rnd n))))
           = signKey P (NegotiateFlags n) (exportedSessionKey n) ''Client''"
    and "ClientSigningKey (snd (V2_calculateKeys P rev2
            (snd (V2Server_computeExportedSessionKey P n))))
           = signKey P (NegotiateFlags n) (keyExchangeKey n) ''Client''"
    and "ClientSigningKey (snd (V1_calculateKeys P rev1
            (snd (V1Client_computeEncryptedSessionKey P rnd n))))
           = signKey P (NegotiateFlags n) (exportedSessionKey n) ''Client''"
    and "ClientSigningKey (snd (V1_calculateKeys P rev2
            (snd (V1Server_computeExportedSessionKey P n))))
           = signKey P (NegotiateFlags n) (keyExchangeKey n) ''Client''"
  using assms
  by (simp_all add: V2_calculateKeys_def V1_calculateKeys_def
      V2Client_computeEncryptedSessionKey_def V1Client_computeEncryptedSessionKey_def
      V2Server_computeExportedSessionKey_def V1Server_computeExportedSessionKey_def Let_def)

text \<open>
  C4, at a client session that negotiated no key exchange (flags 0), holds the key-exchange
  key \<open>33 33 ... 33\<close> and has no exported session key yet. The client's
  \<^verbatim>\<open>computeEncryptedSessionKey\<close>, v1 and v2, returns no error and echoes the key-exchange
  key in \<open>encryptedRandomSessionKey\<close>, but the exported session key is still empty
  afterwards: it does not equal the key-exchange key. The server's
  \<^verbatim>\<open>computeExportedSessionKey\<close> on the same data sets it to the key-exchange key.
\<close>

theorem Client_computeEncryptedSessionKey_leaves_exportedSessionKey:
  "NegotiateFlags clientSessionNoKeyExch = 0
   \<and> \<not> IsSet NTLMSSP_NEGOTIATE_KEY_EXCH (NegotiateFlags clientSessionNoKeyExch)
   \<and> keyExchangeKey clientSessionNoKeyExch = replicate 16 0x33
   \<and> exportedSessionKey clientSessionNoKeyExch = []
   \<and> fst (V2Client_computeEncryptedSessionKey toyPrims sampleRandomBytes clientSessionNoKeyExch) = None
   \<and> encryptedRandomSessionKey
        (snd (V2Client_computeEncryptedSessionKey toyPrims sampleRandomBytes clientSessionNoKeyExch))
       = replicate 16 0x33
   \<and> exportedSessionKey
        (snd (V2Client_computeEncryptedSessionKey toyPrims sampleRandomBytes clientSessionNoKeyExch))
       = []
   \<and> fst (V1Client_computeEncryptedSessionKey toyPrims sampleRandomBytes clientSessionNoKeyExch) = None
   \<and> encryptedRandomSessionKey
        (snd (V1Client_computeEncryptedSessionKey toyPrims sampleRandomBytes clientSessionNoKeyExch))
       = replicate 16 0x33
   \<and> exportedSessionKey
        (snd (V1Client_computeEncryptedSessionKey toyPrims sampleRandomBytes clientSessionNoKeyExch))
       = []
   \<and> exportedSessionKey (snd (V2Server_computeExportedSessionKey toyPrims clientSessionNoKeyExch))
       = replicate 16 0x33
   \<and> exportedSessionKey (snd (V1Server_computeExportedSessionKey toyPrims clientSessionNoKeyExch))
       = replicate 16 0x33"
proof -
  have f: "NegotiateFlags clientSessionNoKeyExch = 0"
    and k: "keyExchangeKey clientSessionNoKeyExch = replicate 16 0x33"
    and x: "exportedSessionKey clientSessionNoKeyExch = []"
    by (simp_all add: clientSessionNoKeyExch_def keyedSession_def sampleSession_def zeroSession_def)
  have ns: "\<not> IsSet NTLMSSP_NEGOTIATE_KEY_EXCH (NegotiateFlags clientSessionNoKeyExch)"
    by (simp add: f IsSet_def)
  note c = Client_computeEncryptedSessionKey_without_KEY_EXCH [OF ns, of toyPrims sampleRandomBytes]
  have s: "exportedSessionKey (snd (V2Server_computeExportedSessionKey toyPrims clientSessionNoKeyExch))
             = replicate 16 0x33"
    "exportedSessionKey (snd (V1Server_computeExportedSessionKey toyPrims clientSessionNoKeyExch))
             = replicate 16 0x33"
    using ns k by (simp_all add: Server_computeExportedSessionKey_value)
  show ?thesis
    using f ns k x s by (simp add: c)
qed

section \<open>Properties: the MAC of a message\<close>

text \<open>
  What \<^verbatim>\<open>Mac\<close> and \<^verbatim>\<open>VerifyMac\<close> give for every implementation of \<^verbatim>\<open>mac\<close> and
  \<^verbatim>\<open>MacsEqual\<close>: a server verifies with the client's keys and handle and a client with the
  server's, and \<^verbatim>\<open>VerifyMac\<close> is \<^verbatim>\<open>MacsEqual\<close> of the recomputed signature and the
  one it was handed. So, for a \<^verbatim>\<open>MacsEqual\<close> that accepts equal byte strings, a signature
  made by one role verifies at the peer that holds the same flags, keys and cipher state.
  Whether another message, sequence number or signature is rejected is a property of
  \<^verbatim>\<open>mac\<close> and \<^verbatim>\<open>MacsEqual\<close> themselves.
\<close>

lemma VerifyMac_is_recomputation:
  "fst (fst (V2Server_VerifyMac P n message expectedMac seq))
     = MacsEqual P (fst (NtlmV2Mac P message seq (clientHandle n) (ClientSealingKey n)
                           (ClientSigningKey n) (NegotiateFlags n))) expectedMac"
  "fst (fst (V2Client_VerifyMac P n message expectedMac seq))
     = MacsEqual P (fst (NtlmV2Mac P message seq (serverHandle n) (ServerSealingKey n)
                           (ServerSigningKey n) (NegotiateFlags n))) expectedMac"
  "fst (fst (V1Server_VerifyMac P n message expectedMac seq))
     = MacsEqual P (fst (ntlmV1Mac P message seq (clientHandle n) (ClientSealingKey n)
                           (ClientSigningKey n) (NegotiateFlags n))) expectedMac"
  "fst (fst (V1Client_VerifyMac P n message expectedMac seq))
     = MacsEqual P (fst (ntlmV1Mac P message seq (serverHandle n) (ServerSealingKey n)
                           (ServerSigningKey n) (NegotiateFlags n))) expectedMac"
  by (simp_all add: V2Server_VerifyMac_def V2Client_VerifyMac_def V1Server_VerifyMac_def
      V1Client_VerifyMac_def split_def Let_def)

lemma V2_Mac_VerifyMac_round_trip:
  assumes "\<forall>x. MacsEqual P x x" and "NegotiateFlags s = NegotiateFlags c"
  shows "ClientSigningKey s = ClientSigningKey c \<Longrightarrow> ClientSealingKey s = ClientSealingKey c
           \<Longrightarrow> clientHandle s = clientHandle c
           \<Longrightarrow> fst (V2Server_VerifyMac P s message (fst (fst (V2Client_Mac P c message seq))) seq)
                 = (True, None)"
    and "ServerSigningKey s = ServerSigningKey c \<Longrightarrow> ServerSealingKey s = ServerSealingKey c
           \<Longrightarrow> serverHandle s = serverHandle c
           \<Longrightarrow> fst (V2Client_VerifyMac P c message (fst (fst (V2Server_Mac P s message seq))) seq)
                 = (True, None)"
  using assms
  by (simp_all add: V2Server_VerifyMac_def V2Client_Mac_def V2Client_VerifyMac_def V2Server_Mac_def
      split_def Let_def)

lemma V1_Mac_VerifyMac_round_trip:
  assumes "\<forall>x. MacsEqual P x x" and "NegotiateFlags s = NegotiateFlags c"
  shows "ClientSigningKey s = ClientSigningKey c \<Longrightarrow> ClientSealingKey s = ClientSealingKey c
           \<Longrightarrow> clientHandle s = clientHandle c
           \<Longrightarrow> fst (V1Server_VerifyMac P s message (fst (fst (V1Client_Mac P c message seq))) seq)
                 = (True, None)"
    and "ServerSigningKey s = ServerSigningKey c \<Longrightarrow> ServerSealingKey s = ServerSealingKey c
           \<Longrightarrow> serverHandle s = serverHandle c
           \<Longrightarrow> fst (V1Client_VerifyMac P c message (fst (fst (V1Server_Mac P s message seq))) seq)
                 = (True, None)"
  using assms
  by (simp_all add: V1Server_VerifyMac_def V1Client_Mac_def V1Client_VerifyMac_def V1Server_Mac_def
      split_def Let_def)

text \<open>
  \<^verbatim>\<open>mac\<close> is handed \<^verbatim>\<open>uint32(sequenceNumber)\<close>: outside datagram mode two sequence numbers
  that agree in their low 32 bits give the same signature and leave the cipher in the same
  state.
\<close>

lemma Mac_sees_32_bits_of_sequenceNumber:
  assumes "\<not> IsSet NTLMSSP_NEGOTIATE_DATAGRAM flags"
  shows "NtlmV2Mac P message (sequenceNumber + 2 ^ 32) handle sealingKey signingKey flags
           = NtlmV2Mac P message sequenceNumber handle sealingKey signingKey flags"
    and "ntlmV1Mac P message (sequenceNumber + 2 ^ 32) handle sealingKey signingKey flags
           = ntlmV1Mac P message sequenceNumber handle sealingKey signingKey flags"
proof -
  have "(word_of_int (sequenceNumber + 2 ^ 32) :: uint32) = word_of_int sequenceNumber"
    by (simp add: word_of_int_eq_iff take_bit_eq_mod)
  then show "NtlmV2Mac P message (sequenceNumber + 2 ^ 32) handle sealingKey signingKey flags
           = NtlmV2Mac P message sequenceNumber handle sealingKey signingKey flags"
    and "ntlmV1Mac P message (sequenceNumber + 2 ^ 32) handle sealingKey signingKey flags
           = ntlmV1Mac P message sequenceNumber handle sealingKey signingKey flags"
    using assms by (simp_all only: NtlmV2Mac_def ntlmV1Mac_def simp_thms if_False)
qed

end
